theory Spec2Isabelle
  imports Complex_Main
begin

text \<open>
  A model of the gas optimization engine of oneclickmatic.com: the optimizer
  (\<open>src/lib/gasOptimizer.ts\<close>), which turns a fee snapshot, a transaction intent and a
  policy into recommended fee parameters with their savings, and the gas API
  (\<open>src/lib/polygonGasApi.ts\<close>), which normalizes the replies of two fee oracles into
  snapshots and retries and falls back between them. Functions keep their names in the
  source; the fields of nested objects carry a prefix where two objects share a field
  name.
\<close>

section \<open>JavaScript numbers\<close>

text \<open>
  The program is TypeScript; every \<open>number\<close> is an IEEE 754 double. A finite double is
  modelled by the rational it denotes, and every arithmetic operation rounds its exact
  result to the nearest double (ties to even, 53 bits of precision), as the language
  does. The exponent is left unbounded: overflow to \<open>Infinity\<close> and the subnormal range
  below \<open>2 powi (-1022)\<close> are not modelled, and \<open>-0\<close> is identified with \<open>0\<close> (the
  program tests numbers only with comparisons, \<open>||\<close> and \<open>!\<close>, which do not tell them
  apart).

  A decimal literal of the source such as \<open>0.8\<close> denotes the double nearest to it,
  written \<open>fl 0.8\<close> below; integer literals are exact.

  \<open>expo x\<close> is the binary exponent of a positive \<open>x\<close>: the \<open>e\<close> with
  \<open>2 powi e \<le> x < 2 powi (e + 1)\<close>.
\<close>

function expo :: "rat \<Rightarrow> int" where
  "expo x = (if x \<le> 0 then 0
             else if 2 \<le> x then expo (x / 2) + 1
             else if x < 1 then expo (x * 2) - 1
             else 0)"
  by pat_completeness auto
termination
proof (relation "measure (\<lambda>x. nat \<lfloor>x\<rfloor> + 2 * nat \<lceil>1 / x\<rceil>)")
  show "wf (measure (\<lambda>x::rat. nat \<lfloor>x\<rfloor> + 2 * nat \<lceil>1 / x\<rceil>))" by simp
next
  fix x :: rat
  assume a: "\<not> x \<le> 0" "2 \<le> x"
  have "\<lfloor>x / 2\<rfloor> < \<lfloor>x\<rfloor>" using a by linarith
  moreover have "\<lceil>1 / (x / 2)\<rceil> = 1" using a by (simp add: ceiling_eq_iff field_simps)
  moreover have "\<lceil>1 / x\<rceil> = 1" using a by (simp add: ceiling_eq_iff field_simps)
  moreover have "0 \<le> \<lfloor>x / 2\<rfloor>" using a by simp
  ultimately show "(x / 2, x) \<in> measure (\<lambda>x. nat \<lfloor>x\<rfloor> + 2 * nat \<lceil>1 / x\<rceil>)"
    using a by simp
next
  fix x :: rat
  assume a: "\<not> x \<le> 0" "\<not> 2 \<le> x" "x < 1"
  have fx: "\<lfloor>x\<rfloor> = 0" using a by (simp add: floor_eq_iff)
  show "(x * 2, x) \<in> measure (\<lambda>x. nat \<lfloor>x\<rfloor> + 2 * nat \<lceil>1 / x\<rceil>)"
  proof (cases "x < 1/2")
    case True
    have "\<lfloor>x * 2\<rfloor> = 0" using a True by (simp add: floor_eq_iff)
    moreover have "2 < 1 / x" using a True by (simp add: field_simps)
    then have "1 / (x * 2) \<le> 1 / x - 1" using a by (simp add: field_simps)
    then have "\<lceil>1 / (x * 2)\<rceil> \<le> \<lceil>1 / x - 1\<rceil>" by (rule ceiling_mono)
    then have "\<lceil>1 / (x * 2)\<rceil> < \<lceil>1 / x\<rceil>" by simp
    moreover have "0 < \<lceil>1 / x\<rceil>" using a by simp
    ultimately show ?thesis using fx by simp
  next
    case False
    have "\<lfloor>x * 2\<rfloor> = 1" using a False by (simp add: floor_eq_iff)
    moreover have "\<lceil>1 / x\<rceil> = 2" using a False by (simp add: ceiling_eq_iff field_simps)
    moreover have "\<lceil>1 / (x * 2)\<rceil> = 1" using a False by (simp add: ceiling_eq_iff field_simps)
    ultimately show ?thesis using fx by simp
  qed
qed

declare expo.simps [simp del]

text \<open>Rounding to the nearest integer, a tie going to the even neighbour.\<close>

definition round_even :: "rat \<Rightarrow> int" where
  "round_even y =
     (let f = \<lfloor>y\<rfloor>; r = y - of_int f
      in if r < 1 / 2 then f
         else if 1 / 2 < r then f + 1
         else if even f then f else f + 1)"

text \<open>
  \<open>fl x\<close> is the double nearest to \<open>x\<close>: \<open>x\<close> is scaled by the unit in the last place of
  its binade, rounded to an integer of at most 53 bits, and scaled back.
\<close>

definition fl :: "rat \<Rightarrow> rat" where
  "fl x =
     (if x = 0 then 0
      else let u = 2 powi (expo \<bar>x\<bar> - 52)
           in sgn x * of_int (round_even (\<bar>x\<bar> / u)) * u)"

text \<open>
  A value of type \<open>number\<close> at run time: a finite double or \<open>NaN\<close>. Arithmetic
  propagates \<open>NaN\<close>; every comparison with \<open>NaN\<close> is false. No division in the modelled
  code has a zero divisor (the divisors are the constants \<open>1e9\<close> and \<open>100\<close> and a cost
  that was tested positive), so the infinite quotients of the language never arise;
  \<open>fdiv\<close> returns \<open>NaN\<close> there.
\<close>

datatype jsnum = Num rat | NaN

fun fadd :: "jsnum \<Rightarrow> jsnum \<Rightarrow> jsnum" where
  "fadd (Num x) (Num y) = Num (fl (x + y))"
| "fadd _ _ = NaN"

fun fsub :: "jsnum \<Rightarrow> jsnum \<Rightarrow> jsnum" where
  "fsub (Num x) (Num y) = Num (fl (x - y))"
| "fsub _ _ = NaN"

fun fmul :: "jsnum \<Rightarrow> jsnum \<Rightarrow> jsnum" where
  "fmul (Num x) (Num y) = Num (fl (x * y))"
| "fmul _ _ = NaN"

fun fdiv :: "jsnum \<Rightarrow> jsnum \<Rightarrow> jsnum" where
  "fdiv (Num x) (Num y) = (if y = 0 then NaN else Num (fl (x / y)))"
| "fdiv _ _ = NaN"

fun js_lt :: "jsnum \<Rightarrow> jsnum \<Rightarrow> bool" where
  "js_lt (Num x) (Num y) = (x < y)"
| "js_lt _ _ = False"

fun js_le :: "jsnum \<Rightarrow> jsnum \<Rightarrow> bool" where
  "js_le (Num x) (Num y) = (x \<le> y)"
| "js_le _ _ = False"

definition js_gt :: "jsnum \<Rightarrow> jsnum \<Rightarrow> bool" where
  "js_gt a b = js_lt b a"

definition js_ge :: "jsnum \<Rightarrow> jsnum \<Rightarrow> bool" where
  "js_ge a b = js_le b a"

text \<open>\<open>Math.max\<close>, \<open>Math.min\<close>, \<open>Math.ceil\<close> and \<open>Math.floor\<close>.\<close>

fun js_max :: "jsnum \<Rightarrow> jsnum \<Rightarrow> jsnum" where
  "js_max (Num x) (Num y) = Num (max x y)"
| "js_max _ _ = NaN"

fun js_min :: "jsnum \<Rightarrow> jsnum \<Rightarrow> jsnum" where
  "js_min (Num x) (Num y) = Num (min x y)"
| "js_min _ _ = NaN"

fun js_ceil :: "jsnum \<Rightarrow> jsnum" where
  "js_ceil (Num x) = Num (of_int \<lceil>x\<rceil>)"
| "js_ceil NaN = NaN"

fun js_floor :: "jsnum \<Rightarrow> jsnum" where
  "js_floor (Num x) = Num (of_int \<lfloor>x\<rfloor>)"
| "js_floor NaN = NaN"

text \<open>
  Reading \<open>xs[i]\<close>: \<open>None\<close> stands for \<open>undefined\<close>, the value of an index outside the
  array. \<open>a || b\<close> on such values takes \<open>b\<close> when \<open>a\<close> is \<open>undefined\<close> or \<open>0\<close>.
  \<open>undefined\<close> in arithmetic is \<open>NaN\<close>.
\<close>

definition js_index :: "'a list \<Rightarrow> int \<Rightarrow> 'a option" where
  "js_index xs i = (if 0 \<le> i \<and> nat i < length xs then Some (xs ! nat i) else None)"

definition js_truthy :: "rat option \<Rightarrow> bool" where
  "js_truthy a = (case a of None \<Rightarrow> False | Some v \<Rightarrow> v \<noteq> 0)"

definition js_or :: "rat option \<Rightarrow> rat option \<Rightarrow> rat option" where
  "js_or a b = (if js_truthy a then a else b)"

definition to_number :: "rat option \<Rightarrow> jsnum" where
  "to_number a = (case a of None \<Rightarrow> NaN | Some v \<Rightarrow> Num v)"

section \<open>The gas optimizer (gasOptimizer.ts)\<close>

datatype Aggressiveness = Conservative | Balanced | Aggressive

record GasOptimizerConfig =
  aggressiveness :: Aggressiveness
  maxWaitTime :: rat
  minSavingsPercent :: rat
  feePercent :: rat

text \<open>
  \<open>TransactionType\<close> is a closed union of six strings, checked at compile time only;
  the code has branches for a run-time value outside the union. The recommendation table
  is a plain object, so a lookup in it also finds what the object inherits from
  \<open>Object.prototype\<close>. \<open>InheritedName\<close> stands for a run-time value that names such a
  property (\<open>toString\<close>, \<open>constructor\<close>, \<open>valueOf\<close>, \<open>hasOwnProperty\<close>, \<open>__proto__\<close>
  and the like), and \<open>OtherType\<close> for any other value outside the union, for which the
  lookup yields \<open>undefined\<close>.
\<close>

datatype TransactionType =
  Transfer | Erc20Transfer | Swap | NftMint | NftTransfer | ContractInteraction
  | InheritedName | OtherType

text \<open>
  What a lookup in the table yields, and what \<open>recommendGasLimit\<close> can therefore
  return: a number, or a member of \<open>Object.prototype\<close> (a function; for \<open>__proto__\<close> the
  prototype object itself). Such a member is truthy, and it converts to \<open>NaN\<close> where a
  number is needed.
\<close>

datatype limit = Limit rat | PrototypeMember

fun limit_truthy :: "limit option \<Rightarrow> bool" where
  "limit_truthy None = False"
| "limit_truthy (Some (Limit v)) = (v \<noteq> 0)"
| "limit_truthy (Some PrototypeMember) = True"

fun limit_number :: "limit \<Rightarrow> jsnum" where
  "limit_number (Limit v) = Num v"
| "limit_number PrototypeMember = NaN"

text \<open>An optional field that the caller left out is \<open>None\<close>. The field \<open>originalTx\<close> is
  never read and is left out.\<close>

record TransactionDetails =
  txType :: TransactionType
  gasLimit :: "rat option"
  maxFeePerGas :: "rat option"
  maxPriorityFeePerGas :: "rat option"

text \<open>
  \<open>GasData\<close> is parameterised by its type of numbers: the normalizers of the API module
  build it from parsed text, where a number may be \<open>NaN\<close> (\<open>jsnum GasData\<close>); the
  optimizer is modelled on snapshots whose numbers are all finite (\<open>rat GasData\<close>),
  since the order in which \<open>sort\<close> leaves an array holding \<open>NaN\<close> is not fixed by the
  language.
\<close>

record 'n TierPrice =
  tierMaxFeePerGas :: 'n
  tierMaxPriorityFeePerGas :: 'n

record 'n EstimatedPrices =
  safeLow :: "'n TierPrice"
  standard :: "'n TierPrice"
  fast :: "'n TierPrice"
  fastest :: "'n TierPrice"

record 'n GasData =
  baseFee :: 'n
  priorityFeeRange :: "'n list"
  networkCongestion :: 'n
  estimatedPrices :: "'n EstimatedPrices"
  source :: string
  timestamp :: nat

datatype SavingsLevel = High | Medium | Low | NoSavings

record OriginalBlock =
  origMaxFeePerGas :: rat
  origMaxPriorityFeePerGas :: rat
  origGasLimit :: rat
  origEstimatedCostInMatic :: jsnum

record OptimizedBlock =
  optMaxFeePerGas :: jsnum
  optMaxPriorityFeePerGas :: "rat option"
  optGasLimit :: limit
  optEstimatedCostInMatic :: jsnum
  optEstimatedWaitTime :: rat

record SavingsBlock =
  savingsInMatic :: jsnum
  savingsPercent :: jsnum
  savingsLevel :: SavingsLevel

record FeeBlock =
  feeInMatic :: jsnum
  feeBlockPercent :: rat

record OptimizationResult =
  original :: OriginalBlock
  optimized :: OptimizedBlock
  savings :: SavingsBlock
  fee :: FeeBlock
  netSavings :: jsnum
  shouldOptimizeVerdict :: bool

text \<open>The table \<open>gasLimitRecommendations\<close> set up by the constructor.\<close>

fun gasLimitRecommendations :: "TransactionType \<Rightarrow> limit option" where
  "gasLimitRecommendations Transfer = Some (Limit 21000)"
| "gasLimitRecommendations Erc20Transfer = Some (Limit 65000)"
| "gasLimitRecommendations Swap = Some (Limit 200000)"
| "gasLimitRecommendations NftMint = Some (Limit 250000)"
| "gasLimitRecommendations NftTransfer = Some (Limit 100000)"
| "gasLimitRecommendations ContractInteraction = Some (Limit 150000)"
| "gasLimitRecommendations InheritedName = Some PrototypeMember"
| "gasLimitRecommendations OtherType = None"

text \<open>
  The \<open>switch\<close> on the aggressiveness in \<open>calculateOptimalGasSettings\<close> sets three
  variables: the percentile, the padding and the estimated wait time.
\<close>

record Strategy =
  priorityFeePercentile :: rat
  maxFeePadding :: rat
  estimatedWaitTime :: rat

fun strategy :: "Aggressiveness \<Rightarrow> rat \<Rightarrow> Strategy" where
  "strategy Conservative congestion =
     \<lparr>priorityFeePercentile = (if fl 0.7 < congestion then fl 0.8 else fl 0.6),
      maxFeePadding = fl 1.3,
      estimatedWaitTime = 15\<rparr>"
| "strategy Aggressive congestion =
     \<lparr>priorityFeePercentile = (if fl 0.8 < congestion then fl 0.4 else fl 0.2),
      maxFeePadding = fl 1.1,
      estimatedWaitTime = (if fl 0.8 < congestion then 60 else 30)\<rparr>"
| "strategy Balanced congestion =
     \<lparr>priorityFeePercentile = (if fl 0.7 < congestion then fl 0.6 else fl 0.4),
      maxFeePadding = fl 1.2,
      estimatedWaitTime = (if fl 0.7 < congestion then 30 else 20)\<rparr>"

record GasSettings =
  setMaxFeePerGas :: jsnum
  setMaxPriorityFeePerGas :: "rat option"
  setEstimatedWaitTime :: rat

definition calculateOptimalGasSettings ::
  "GasOptimizerConfig \<Rightarrow> rat \<Rightarrow> rat list \<Rightarrow> rat \<Rightarrow> GasSettings" where
  "calculateOptimalGasSettings cfg base fees congestion =
     (let st = strategy (aggressiveness cfg) congestion;
          priorityFeeRange_sorted = sort fees;
          index = \<lfloor>fl (of_nat (length priorityFeeRange_sorted) * priorityFeePercentile st)\<rfloor>;
          optimalPriorityFee =
            js_or (js_index priorityFeeRange_sorted index) (js_index priorityFeeRange_sorted 0);
          optimalMaxFee =
            js_ceil (fmul (fadd (Num base) (to_number optimalPriorityFee)) (Num (maxFeePadding st)))
      in \<lparr>setMaxFeePerGas = optimalMaxFee,
          setMaxPriorityFeePerGas = optimalPriorityFee,
          setEstimatedWaitTime = estimatedWaitTime st\<rparr>)"

text \<open>
  \<open>recommendGasLimit\<close>. In the comparison with 80 percent of the recommendation, a
  recommendation that is no number makes the product \<open>NaN\<close> and the comparison false.
\<close>

definition recommendGasLimit :: "TransactionType \<Rightarrow> rat \<Rightarrow> limit" where
  "recommendGasLimit transactionType userGasLimit =
     (if userGasLimit = 0 \<or> userGasLimit < 21000
      then (if limit_truthy (gasLimitRecommendations transactionType)
            then the (gasLimitRecommendations transactionType) else Limit 100000)
      else (let recommendedLimit = gasLimitRecommendations transactionType
            in if \<not> limit_truthy recommendedLimit then Limit userGasLimit
               else if js_lt (Num userGasLimit)
                         (fmul (limit_number (the recommendedLimit)) (Num (fl 0.8)))
               then the recommendedLimit
               else Limit userGasLimit))"

definition estimateCost :: "jsnum \<Rightarrow> jsnum \<Rightarrow> jsnum" where
  "estimateCost fee_per_gas limit = fdiv (fmul fee_per_gas limit) (Num 1000000000)"

definition calculateSavings :: "jsnum \<Rightarrow> jsnum \<Rightarrow> jsnum \<Rightarrow> jsnum \<times> jsnum" where
  "calculateSavings originalMaxFee optimizedMaxFee limit =
     (let originalCost = estimateCost originalMaxFee limit;
          optimizedCost = estimateCost optimizedMaxFee limit;
          savingsAbs = js_max (Num 0) (fsub originalCost optimizedCost);
          savingsPct = (if js_gt originalCost (Num 0)
                        then fmul (fdiv savingsAbs originalCost) (Num 100)
                        else Num 0)
      in (savingsAbs, savingsPct))"

definition shouldOptimize :: "GasOptimizerConfig \<Rightarrow> jsnum \<Rightarrow> rat \<Rightarrow> bool" where
  "shouldOptimize cfg savingsPct waitTime =
     (js_ge savingsPct (Num (minSavingsPercent cfg)) \<and> waitTime \<le> maxWaitTime cfg)"

definition determineSavingsLevel :: "jsnum \<Rightarrow> rat \<Rightarrow> SavingsLevel" where
  "determineSavingsLevel savingsPct congestion =
     (if js_gt savingsPct (Num 20) \<or> (fl 0.7 < congestion \<and> js_gt savingsPct (Num 10))
      then High
      else if js_ge savingsPct (Num 10) then Medium
      else if js_ge savingsPct (Num 5) then Low
      else NoSavings)"

definition optimizeGas ::
  "GasOptimizerConfig \<Rightarrow> rat GasData \<Rightarrow> TransactionDetails \<Rightarrow> OptimizationResult" where
  "optimizeGas cfg currentGasData transactionDetails =
     (let userGasLimit = (case gasLimit transactionDetails of None \<Rightarrow> 21000 | Some g \<Rightarrow> g);
          userMaxFee = (case maxFeePerGas transactionDetails of None \<Rightarrow> 0 | Some f \<Rightarrow> f);
          userPriorityFee =
            (case maxPriorityFeePerGas transactionDetails of None \<Rightarrow> 0 | Some f \<Rightarrow> f);
          optimizedSettings =
            calculateOptimalGasSettings cfg (baseFee currentGasData)
              (priorityFeeRange currentGasData) (networkCongestion currentGasData);
          recommendedGasLimit = recommendGasLimit (txType transactionDetails) userGasLimit;
          sv = calculateSavings (Num userMaxFee) (setMaxFeePerGas optimizedSettings)
                 (limit_number recommendedGasLimit);
          serviceFee = (if js_gt (fst sv) (Num 0)
                        then fdiv (fmul (fst sv) (Num (feePercent cfg))) (Num 100)
                        else Num 0);
          verdict = shouldOptimize cfg (snd sv) (setEstimatedWaitTime optimizedSettings);
          level = determineSavingsLevel (snd sv) (networkCongestion currentGasData)
      in \<lparr>original =
            \<lparr>origMaxFeePerGas = userMaxFee,
             origMaxPriorityFeePerGas = userPriorityFee,
             origGasLimit = userGasLimit,
             origEstimatedCostInMatic = estimateCost (Num userMaxFee) (Num userGasLimit)\<rparr>,
          optimized =
            \<lparr>optMaxFeePerGas = setMaxFeePerGas optimizedSettings,
             optMaxPriorityFeePerGas = setMaxPriorityFeePerGas optimizedSettings,
             optGasLimit = recommendedGasLimit,
             optEstimatedCostInMatic =
               estimateCost (setMaxFeePerGas optimizedSettings)
                 (limit_number recommendedGasLimit),
             optEstimatedWaitTime = setEstimatedWaitTime optimizedSettings\<rparr>,
          savings =
            \<lparr>savingsInMatic = fst sv, savingsPercent = snd sv, savingsLevel = level\<rparr>,
          fee = \<lparr>feeInMatic = serviceFee, feeBlockPercent = feePercent cfg\<rparr>,
          netSavings = fsub (fst sv) serviceFee,
          shouldOptimizeVerdict = verdict\<rparr>)"

section \<open>The gas API (polygonGasApi.ts)\<close>

subsection \<open>\<open>parseInt\<close>\<close>

text \<open>
  The normalizers read every number with \<open>parseInt\<close>, called with one argument. Text is
  modelled as ASCII. \<open>parseInt\<close> skips leading white space, reads an optional sign and an
  optional \<open>0x\<close> prefix (which selects radix 16, otherwise 10), and takes the longest
  run of digits that follows; with no digit the result is \<open>NaN\<close>. A property that is
  absent (\<open>undefined\<close>, \<open>None\<close> here) is converted to the text \<open>undefined\<close>, which has no
  digit either.
\<close>

definition isWhiteSpace :: "char \<Rightarrow> bool" where
  "isWhiteSpace c = (of_char c \<in> {9, 10, 11, 12, 13, 32 :: nat})"

definition digitOf :: "char \<Rightarrow> nat option" where
  "digitOf c =
     (let n = of_char c :: nat
      in if 48 \<le> n \<and> n \<le> 57 then Some (n - 48)
         else if 97 \<le> n \<and> n \<le> 122 then Some (n - 87)
         else if 65 \<le> n \<and> n \<le> 90 then Some (n - 55)
         else None)"

definition isRadixDigit :: "nat \<Rightarrow> char \<Rightarrow> bool" where
  "isRadixDigit r c = (case digitOf c of None \<Rightarrow> False | Some d \<Rightarrow> d < r)"

definition digitsValue :: "nat \<Rightarrow> string \<Rightarrow> nat" where
  "digitsValue r ds = foldl (\<lambda>acc c. acc * r + the (digitOf c)) 0 ds"

definition parseInt :: "string option \<Rightarrow> jsnum" where
  "parseInt v =
     (case v of
        None \<Rightarrow> NaN
      | Some s \<Rightarrow>
          (let s1 = dropWhile isWhiteSpace s;
               negative = (s1 \<noteq> [] \<and> hd s1 = CHR ''-'');
               s2 = (if s1 \<noteq> [] \<and> (hd s1 = CHR ''-'' \<or> hd s1 = CHR ''+'') then tl s1 else s1);
               hex = (take 2 s2 = ''0x'' \<or> take 2 s2 = ''0X'');
               radix = (if hex then 16 else 10);
               s3 = (if hex then drop 2 s2 else s2);
               ds = takeWhile (isRadixDigit radix) s3
           in if ds = [] then NaN
              else Num ((if negative then - 1 else 1) * fl (of_nat (digitsValue radix ds)))))"

subsection \<open>Upstream bodies and the normalizers\<close>

text \<open>
  The body of the primary source has four tiers, each an object with the fields
  \<open>maxFee\<close> and \<open>maxPriorityFee\<close>. A tier that is absent is \<open>None\<close>: reading a field
  of \<open>undefined\<close> throws a \<open>TypeError\<close>. A field that is absent is \<open>None\<close> too, and
  reading it yields \<open>undefined\<close> without an exception.
\<close>

record GasStationTier =
  maxFee :: "string option"
  maxPriorityFee :: "string option"

record GasStationBody =
  rawSafeLow :: "GasStationTier option"
  rawStandard :: "GasStationTier option"
  rawFast :: "GasStationTier option"
  rawFastest :: "GasStationTier option"

record PolygonscanResult =
  SafeGasPrice :: "string option"
  ProposeGasPrice :: "string option"
  FastGasPrice :: "string option"

text \<open>
  \<open>status\<close> passes the test \<open>data.status !== '1'\<close> only as the text \<open>1\<close>; \<open>result\<close> is
  \<open>None\<close> when it is absent or otherwise falsy.
\<close>

record PolygonscanBody =
  status :: "string option"
  result :: "PolygonscanResult option"

datatype error =
  TypeError | InvalidResponse | HttpError nat | NetworkError | JsonError

text \<open>\<open>now\<close> is the value of \<open>Date.now()\<close>.\<close>

definition normalizeGasStationData :: "nat \<Rightarrow> GasStationBody \<Rightarrow> error + jsnum GasData" where
  "normalizeGasStationData now data =
     (case (rawSafeLow data, rawStandard data, rawFast data, rawFastest data) of
        (Some sl, Some sd, Some fa, Some fs) \<Rightarrow>
          (let base = fsub (parseInt (maxFee sd)) (parseInt (maxPriorityFee sd));
               fees = [parseInt (maxPriorityFee sl), parseInt (maxPriorityFee sd),
                       parseInt (maxPriorityFee fa), parseInt (maxPriorityFee fs)];
               maxBaseFee = Num 100;
               congestion = js_min (Num 1) (fdiv base maxBaseFee)
           in Inr \<lparr>baseFee = base,
                   priorityFeeRange = fees,
                   networkCongestion = congestion,
                   estimatedPrices =
                     \<lparr>safeLow = \<lparr>tierMaxFeePerGas = parseInt (maxFee sl),
                                  tierMaxPriorityFeePerGas = parseInt (maxPriorityFee sl)\<rparr>,
                      standard = \<lparr>tierMaxFeePerGas = parseInt (maxFee sd),
                                   tierMaxPriorityFeePerGas = parseInt (maxPriorityFee sd)\<rparr>,
                      fast = \<lparr>tierMaxFeePerGas = parseInt (maxFee fa),
                               tierMaxPriorityFeePerGas = parseInt (maxPriorityFee fa)\<rparr>,
                      fastest = \<lparr>tierMaxFeePerGas = parseInt (maxFee fs),
                                  tierMaxPriorityFeePerGas = parseInt (maxPriorityFee fs)\<rparr>\<rparr>,
                   source = ''gasStation'',
                   timestamp = now\<rparr>)
      | _ \<Rightarrow> Inl TypeError)"

definition normalizePolygonscanData :: "nat \<Rightarrow> PolygonscanBody \<Rightarrow> error + jsnum GasData" where
  "normalizePolygonscanData now data =
     (if status data \<noteq> Some ''1'' \<or> result data = None then Inl InvalidResponse
      else
        (let res = the (result data);
             safeLowGas = parseInt (SafeGasPrice res);
             standardGas = parseInt (ProposeGasPrice res);
             fastGas = parseInt (FastGasPrice res);
             base = js_floor (fmul standardGas (Num (fl 0.8)));
             safeLowPriorityFee = fsub safeLowGas base;
             standardPriorityFee = fsub standardGas base;
             fastPriorityFee = fsub fastGas base;
             fees = [js_max (Num 1) safeLowPriorityFee, standardPriorityFee, fastPriorityFee,
                     js_ceil (fmul fastPriorityFee (Num (fl 1.2)))];
             maxBaseFee = Num 100;
             congestion = js_min (Num 1) (fdiv base maxBaseFee)
         in Inr \<lparr>baseFee = base,
                 priorityFeeRange = fees,
                 networkCongestion = congestion,
                 estimatedPrices =
                   \<lparr>safeLow = \<lparr>tierMaxFeePerGas = safeLowGas,
                                tierMaxPriorityFeePerGas = js_max (Num 1) safeLowPriorityFee\<rparr>,
                    standard = \<lparr>tierMaxFeePerGas = standardGas,
                                 tierMaxPriorityFeePerGas = standardPriorityFee\<rparr>,
                    fast = \<lparr>tierMaxFeePerGas = fastGas,
                             tierMaxPriorityFeePerGas = fastPriorityFee\<rparr>,
                    fastest = \<lparr>tierMaxFeePerGas = js_ceil (fmul fastGas (Num (fl 1.2))),
                                tierMaxPriorityFeePerGas =
                                  js_ceil (fmul fastPriorityFee (Num (fl 1.2)))\<rparr>\<rparr>,
                 source = ''polygonscan'',
                 timestamp = now\<rparr>))"

subsection \<open>Fetching\<close>

text \<open>
  What one HTTP round trip brings back: the request fails, the status is not a success,
  the body is not JSON, or a body arrives.
\<close>

datatype 'b response = NetworkFailure | HttpNotOk nat | InvalidJson | Body 'b

definition fetchFromPrimaryApi :: "nat \<Rightarrow> GasStationBody response \<Rightarrow> error + jsnum GasData" where
  "fetchFromPrimaryApi now r =
     (case r of
        NetworkFailure \<Rightarrow> Inl NetworkError
      | HttpNotOk code \<Rightarrow> Inl (HttpError code)
      | InvalidJson \<Rightarrow> Inl JsonError
      | Body data \<Rightarrow> normalizeGasStationData now data)"

definition fetchFromFallbackApi :: "nat \<Rightarrow> PolygonscanBody response \<Rightarrow> error + jsnum GasData" where
  "fetchFromFallbackApi now r =
     (case r of
        NetworkFailure \<Rightarrow> Inl NetworkError
      | HttpNotOk code \<Rightarrow> Inl (HttpError code)
      | InvalidJson \<Rightarrow> Inl JsonError
      | Body data \<Rightarrow> normalizePolygonscanData now data)"

text \<open>
  The configuration and the mutable fields of \<open>PolygonGasAPI\<close>. The URLs and the API key
  only select where a request goes and are left out. Calls of \<open>fetchGasData\<close> are modelled
  one after another, each starting when the previous one has settled, so \<open>fetchPromise\<close>
  is \<open>null\<close> whenever a call begins and is not a field of the state. Calls that overlap
  are modelled further down, by a transition system that agrees with this model on calls
  that do not overlap.
\<close>

record PolygonGasAPIConfig =
  refreshInterval :: int
  maxRetries :: nat

record PolygonGasAPI =
  lastFetchedData :: "jsnum GasData option"
  lastFetchTime :: nat
  retryCount :: nat

text \<open>
  The two upstream sources, each as the queue of replies it will give to the requests
  still to come; a source whose queue is used up does not answer.
\<close>

record Upstream =
  primaryReplies :: "GasStationBody response list"
  fallbackReplies :: "PolygonscanBody response list"

definition nextReply :: "'b response list \<Rightarrow> 'b response \<times> 'b response list" where
  "nextReply q = (case q of [] \<Rightarrow> (NetworkFailure, []) | r # rs \<Rightarrow> (r, rs))"

datatype endpoint = Primary | Fallback

record FetchOutcome =
  outcome :: "error + jsnum GasData"
  apiAfter :: PolygonGasAPI
  upstreamAfter :: Upstream
  requests :: "endpoint list"

text \<open>
  The promise chain that \<open>fetchGasData\<close> starts: the primary source is asked; its
  failure is caught once, by the handler that counts it and then asks either the fallback
  source or the primary source again. \<open>requests\<close> lists the round trips in order.
\<close>

definition startFetch :: "PolygonGasAPIConfig \<Rightarrow> nat \<Rightarrow> PolygonGasAPI \<Rightarrow> Upstream \<Rightarrow> FetchOutcome" where
  "startFetch cfg now api up =
     (let first = nextReply (primaryReplies up)
      in case fetchFromPrimaryApi now (fst first) of
           Inr gasData \<Rightarrow>
             \<lparr>outcome = Inr gasData, apiAfter = api,
              upstreamAfter = up\<lparr>primaryReplies := snd first\<rparr>, requests = [Primary]\<rparr>
         | Inl err \<Rightarrow>
             (let counted = api\<lparr>retryCount := retryCount api + 1\<rparr>
              in if maxRetries cfg < retryCount counted
                 then (let second = nextReply (fallbackReplies up)
                       in \<lparr>outcome = fetchFromFallbackApi now (fst second),
                           apiAfter = counted\<lparr>retryCount := 0\<rparr>,
                           upstreamAfter =
                             up\<lparr>primaryReplies := snd first, fallbackReplies := snd second\<rparr>,
                           requests = [Primary, Fallback]\<rparr>)
                 else (let second = nextReply (snd first)
                       in \<lparr>outcome = fetchFromPrimaryApi now (fst second),
                           apiAfter = counted,
                           upstreamAfter = up\<lparr>primaryReplies := snd second\<rparr>,
                           requests = [Primary, Primary]\<rparr>)))"

definition fetchGasData :: "PolygonGasAPIConfig \<Rightarrow> nat \<Rightarrow> PolygonGasAPI \<Rightarrow> Upstream \<Rightarrow> FetchOutcome" where
  "fetchGasData cfg now api up =
     (if lastFetchedData api \<noteq> None \<and> int now - int (lastFetchTime api) < refreshInterval cfg
      then \<lparr>outcome = Inr (the (lastFetchedData api)), apiAfter = api, upstreamAfter = up,
            requests = []\<rparr>
      else (let f = startFetch cfg now api up
            in case outcome f of
                 Inr gasData \<Rightarrow>
                   f\<lparr>apiAfter := (apiAfter f)\<lparr>lastFetchedData := Some gasData,
                                               lastFetchTime := now\<rparr>\<rparr>
               | Inl err \<Rightarrow> f))"

text \<open>
  A caller that polls: \<open>fetchGasData\<close> is called once at each of the given times, every
  call after the previous one has settled. The result is the final state and all the
  round trips made.
\<close>

fun poll ::
  "PolygonGasAPIConfig \<Rightarrow> PolygonGasAPI \<Rightarrow> Upstream \<Rightarrow> nat list \<Rightarrow> PolygonGasAPI \<times> Upstream \<times> endpoint list"
  where
  "poll cfg api up [] = (api, up, [])"
| "poll cfg api up (t # ts) =
     (let f = fetchGasData cfg t api up;
          rest = poll cfg (apiAfter f) (upstreamAfter f) ts
      in (fst rest, fst (snd rest), requests f @ snd (snd rest)))"

subsection \<open>Overlapping calls\<close>

text \<open>
  \<open>fetchGasData\<close> is an asynchronous function, and its calls can overlap: a call runs
  up to its \<open>await\<close> and the rest of it runs when the awaited promise settles, while
  other calls may start in between. The program runs on a single thread, so an execution
  is a sequence of events, each handled to completion: a caller calls \<open>fetchGasData\<close>,
  or the reply to the request in flight arrives and the promise chain continues. What
  follows the settling of the chain (the \<open>finally\<close> handler and the callers that resume)
  is taken as part of the event that settles it.

  \<open>fetchPromise\<close> holds the chain that is pending: the request of the chain that is
  awaited, the call that started the fetch (and awaits the chain) with its value of
  \<open>now\<close>, and the calls that found the chain pending and returned it. \<open>inFlight\<close> lists
  the requests sent and not yet answered, \<open>sent\<close> all the requests sent so far, and
  \<open>delivered\<close> the results handed to callers.
\<close>

type_synonym caller = nat

datatype stage = FirstPrimary | RetryPrimary | AskFallback

record Pending =
  stage :: stage
  initiator :: caller
  startedAt :: nat
  joined :: "caller list"

record Aggregator =
  apiState :: PolygonGasAPI
  fetchPromise :: "Pending option"
  inFlight :: "endpoint list"
  sent :: "endpoint list"
  delivered :: "(caller \<times> (error + jsnum GasData)) list"

datatype reply =
  PrimaryReply "GasStationBody response" | FallbackReply "PolygonscanBody response"

datatype event = Call caller nat | Arrives nat reply

definition send :: "endpoint \<Rightarrow> Aggregator \<Rightarrow> Aggregator" where
  "send e s = s\<lparr>inFlight := inFlight s @ [e], sent := sent s @ [e]\<rparr>"

definition answered :: "Aggregator \<Rightarrow> Aggregator" where
  "answered s = s\<lparr>inFlight := tl (inFlight s)\<rparr>"

text \<open>
  The chain settles: \<open>finally\<close> clears \<open>fetchPromise\<close>, the call that started the fetch
  resumes after its \<open>await\<close> and stores a snapshot with its \<open>now\<close> (an error is thrown
  to it instead), and every call that returned the promise receives the same result.
\<close>

definition settle :: "Aggregator \<Rightarrow> Pending \<Rightarrow> error + jsnum GasData \<Rightarrow> Aggregator" where
  "settle s p res =
     (answered s)
       \<lparr>apiState :=
          (case res of
             Inr gasData \<Rightarrow>
               (apiState s)\<lparr>lastFetchedData := Some gasData, lastFetchTime := startedAt p\<rparr>
           | Inl err \<Rightarrow> apiState s),
        fetchPromise := None,
        delivered := delivered s @ map (\<lambda>c. (c, res)) (initiator p # joined p)\<rparr>"

fun step :: "PolygonGasAPIConfig \<Rightarrow> Aggregator \<Rightarrow> event \<Rightarrow> Aggregator" where
  "step cfg s (Call c now) =
     (if lastFetchedData (apiState s) \<noteq> None
         \<and> int now - int (lastFetchTime (apiState s)) < refreshInterval cfg
         \<and> fetchPromise s = None
      then s\<lparr>delivered := delivered s @ [(c, Inr (the (lastFetchedData (apiState s))))]\<rparr>
      else case fetchPromise s of
             Some p \<Rightarrow> s\<lparr>fetchPromise := Some (p\<lparr>joined := joined p @ [c]\<rparr>)\<rparr>
           | None \<Rightarrow>
               (send Primary s)
                 \<lparr>fetchPromise :=
                    Some \<lparr>stage = FirstPrimary, initiator = c, startedAt = now, joined = []\<rparr>\<rparr>)"
| "step cfg s (Arrives t r) =
     (case fetchPromise s of
        None \<Rightarrow> s
      | Some p \<Rightarrow>
          (case (stage p, r) of
             (FirstPrimary, PrimaryReply resp) \<Rightarrow>
               (case fetchFromPrimaryApi t resp of
                  Inr gasData \<Rightarrow> settle s p (Inr gasData)
                | Inl err \<Rightarrow>
                    (let counted = (apiState s)\<lparr>retryCount := retryCount (apiState s) + 1\<rparr>
                     in if maxRetries cfg < retryCount counted
                        then (send Fallback (answered s))
                               \<lparr>apiState := counted\<lparr>retryCount := 0\<rparr>,
                                fetchPromise := Some (p\<lparr>stage := AskFallback\<rparr>)\<rparr>
                        else (send Primary (answered s))
                               \<lparr>apiState := counted,
                                fetchPromise := Some (p\<lparr>stage := RetryPrimary\<rparr>)\<rparr>))
           | (RetryPrimary, PrimaryReply resp) \<Rightarrow> settle s p (fetchFromPrimaryApi t resp)
           | (AskFallback, FallbackReply resp) \<Rightarrow> settle s p (fetchFromFallbackApi t resp)
           | _ \<Rightarrow> s))"

definition run :: "PolygonGasAPIConfig \<Rightarrow> Aggregator \<Rightarrow> event list \<Rightarrow> Aggregator" where
  "run cfg s evs = foldl (step cfg) s evs"





text \<open>
  The replies that arrive, at time \<open>now\<close>, for a list of requests served from the queues
  of the two sources.
\<close>

fun arrivals :: "nat \<Rightarrow> Upstream \<Rightarrow> endpoint list \<Rightarrow> event list" where
  "arrivals now up [] = []"
| "arrivals now up (Primary # es) =
     Arrives now (PrimaryReply (fst (nextReply (primaryReplies up))))
       # arrivals now (up\<lparr>primaryReplies := snd (nextReply (primaryReplies up))\<rparr>) es"
| "arrivals now up (Fallback # es) =
     Arrives now (FallbackReply (fst (nextReply (fallbackReplies up))))
       # arrivals now (up\<lparr>fallbackReplies := snd (nextReply (fallbackReplies up))\<rparr>) es"

section \<open>Notions used in the statements\<close>

text \<open>
  \<open>near a v eps\<close>: the number \<open>a\<close> is not \<open>NaN\<close> and lies within \<open>eps\<close> of \<open>v\<close>.
\<close>

definition near :: "jsnum \<Rightarrow> rat \<Rightarrow> rat \<Rightarrow> bool" where
  "near a v eps = (case a of Num x \<Rightarrow> \<bar>x - v\<bar> \<le> eps | NaN \<Rightarrow> False)"

text \<open>The default policy of the constructor, and the intent of the worked example.\<close>

definition example_policy :: GasOptimizerConfig where
  "example_policy =
     \<lparr>aggressiveness = Balanced, maxWaitTime = 30, minSavingsPercent = 5, feePercent = 10\<rparr>"

definition example_intent :: TransactionDetails where
  "example_intent =
     \<lparr>txType = Transfer, gasLimit = Some 21000, maxFeePerGas = Some 80,
      maxPriorityFeePerGas = Some 5\<rparr>"

definition example_snapshot :: "rat GasData" where
  "example_snapshot =
     \<lparr>baseFee = 50, priorityFeeRange = [1, 2, 3, 4], networkCongestion = 1 / 2,
      estimatedPrices =
        \<lparr>safeLow = \<lparr>tierMaxFeePerGas = 51, tierMaxPriorityFeePerGas = 1\<rparr>,
         standard = \<lparr>tierMaxFeePerGas = 52, tierMaxPriorityFeePerGas = 2\<rparr>,
         fast = \<lparr>tierMaxFeePerGas = 53, tierMaxPriorityFeePerGas = 3\<rparr>,
         fastest = \<lparr>tierMaxFeePerGas = 54, tierMaxPriorityFeePerGas = 4\<rparr>\<rparr>,
      source = ''gasStation'', timestamp = 0\<rparr>"

text \<open>
  The selection of the priority fee and of the padding as the specification words it.
  Its decimal literals denote doubles and its arithmetic is that of the language, so the
  table reads as follows.
\<close>

definition spec_percentile :: "Aggressiveness \<Rightarrow> rat \<Rightarrow> rat" where
  "spec_percentile a congestion =
     (case a of
        Conservative \<Rightarrow> if fl 0.7 < congestion then fl 0.8 else fl 0.6
      | Balanced \<Rightarrow> if fl 0.7 < congestion then fl 0.6 else fl 0.4
      | Aggressive \<Rightarrow> if fl 0.8 < congestion then fl 0.4 else fl 0.2)"

definition spec_padding :: "Aggressiveness \<Rightarrow> rat" where
  "spec_padding a =
     (case a of
        Conservative \<Rightarrow> fl 1.30
      | Balanced \<Rightarrow> fl 1.20
      | Aggressive \<Rightarrow> fl 1.10)"

text \<open>
  The value at index \<open>floor(length * percentile)\<close> of the sorted range, or the lowest
  value of the sorted range when that index is out of range; an empty range has no lowest
  value.
\<close>

definition spec_lowest :: "rat list \<Rightarrow> rat option" where
  "spec_lowest sorted_fees = (case sorted_fees of [] \<Rightarrow> None | x # _ \<Rightarrow> Some x)"

definition spec_select :: "rat list \<Rightarrow> rat \<Rightarrow> rat option" where
  "spec_select sorted_fees percentile =
     (let i = \<lfloor>fl (of_nat (length sorted_fees) * percentile)\<rfloor>
      in if 0 \<le> i \<and> nat i < length sorted_fees then Some (sorted_fees ! nat i)
         else spec_lowest sorted_fees)"

text \<open>
  The six types of the table. The recommended gas limit as the specification words it:
  the default of the type when no limit is supplied or the limit is below 21000 or below
  80 percent of the default, and the caller's limit otherwise; a type outside the table
  has the default 100000.
\<close>

definition table_type :: "TransactionType \<Rightarrow> bool" where
  "table_type t = (t \<noteq> InheritedName \<and> t \<noteq> OtherType)"

definition spec_default :: "TransactionType \<Rightarrow> rat" where
  "spec_default t =
     (case t of
        Transfer \<Rightarrow> 21000
      | Erc20Transfer \<Rightarrow> 65000
      | Swap \<Rightarrow> 200000
      | NftMint \<Rightarrow> 250000
      | NftTransfer \<Rightarrow> 100000
      | ContractInteraction \<Rightarrow> 150000
      | InheritedName \<Rightarrow> 100000
      | OtherType \<Rightarrow> 100000)"

definition spec_recommend :: "TransactionType \<Rightarrow> rat option \<Rightarrow> rat" where
  "spec_recommend t supplied =
     (case supplied of
        None \<Rightarrow> spec_default t
      | Some u \<Rightarrow>
          if u < 21000 then spec_default t
          else if u < 8 / 10 * spec_default t then spec_default t
          else u)"

definition intent_of :: "TransactionType \<Rightarrow> rat option \<Rightarrow> TransactionDetails" where
  "intent_of t supplied =
     \<lparr>txType = t, gasLimit = supplied, maxFeePerGas = Some 80, maxPriorityFeePerGas = Some 5\<rparr>"

text \<open>
  A field holding the decimal text of a natural number, and the number it denotes.
\<close>

definition isDecimal :: "string \<Rightarrow> bool" where
  "isDecimal s = (s \<noteq> [] \<and> list_all (isRadixDigit 10) s)"

definition decimalField :: "string option \<Rightarrow> bool" where
  "decimalField v = (case v of None \<Rightarrow> False | Some s \<Rightarrow> isDecimal s)"

definition valueOf :: "string option \<Rightarrow> nat" where
  "valueOf v = (case v of None \<Rightarrow> 0 | Some s \<Rightarrow> digitsValue 10 s)"

text \<open>
  Raw bodies with ascending tier values: the four \<open>maxFee\<close> fields of the gas-station
  shape, and the three prices of the polygonscan shape, are decimal texts whose values
  ascend.
\<close>

definition ascending_gas_station :: "GasStationBody \<Rightarrow> bool" where
  "ascending_gas_station d =
     (case (rawSafeLow d, rawStandard d, rawFast d, rawFastest d) of
        (Some sl, Some sd, Some fa, Some fs) \<Rightarrow>
          decimalField (maxFee sl) \<and> decimalField (maxFee sd)
          \<and> decimalField (maxFee fa) \<and> decimalField (maxFee fs)
          \<and> valueOf (maxFee sl) \<le> valueOf (maxFee sd)
          \<and> valueOf (maxFee sd) \<le> valueOf (maxFee fa)
          \<and> valueOf (maxFee fa) \<le> valueOf (maxFee fs)
      | _ \<Rightarrow> False)"

definition ascending_polygonscan :: "PolygonscanBody \<Rightarrow> bool" where
  "ascending_polygonscan d =
     (status d = Some ''1'' \<and>
      (case result d of
         None \<Rightarrow> False
       | Some res \<Rightarrow>
           decimalField (SafeGasPrice res) \<and> decimalField (ProposeGasPrice res)
           \<and> decimalField (FastGasPrice res)
           \<and> valueOf (SafeGasPrice res) \<le> valueOf (ProposeGasPrice res)
           \<and> valueOf (ProposeGasPrice res) \<le> valueOf (FastGasPrice res)))"

definition tiers_ascending :: "jsnum GasData \<Rightarrow> bool" where
  "tiers_ascending g =
     (js_le (tierMaxFeePerGas (safeLow (estimatedPrices g)))
            (tierMaxFeePerGas (standard (estimatedPrices g)))
      \<and> js_le (tierMaxFeePerGas (standard (estimatedPrices g)))
              (tierMaxFeePerGas (fast (estimatedPrices g)))
      \<and> js_le (tierMaxFeePerGas (fast (estimatedPrices g)))
              (tierMaxFeePerGas (fastest (estimatedPrices g))))"










text \<open>Example bodies.\<close>

definition example_gas_station_body :: GasStationBody where
  "example_gas_station_body =
     \<lparr>rawSafeLow = Some \<lparr>maxFee = Some ''110'', maxPriorityFee = Some ''25''\<rparr>,
      rawStandard = Some \<lparr>maxFee = Some ''130'', maxPriorityFee = Some ''30''\<rparr>,
      rawFast = Some \<lparr>maxFee = Some ''150'', maxPriorityFee = Some ''35''\<rparr>,
      rawFastest = Some \<lparr>maxFee = Some ''180'', maxPriorityFee = Some ''40''\<rparr>\<rparr>"

definition example_polygonscan_body :: PolygonscanBody where
  "example_polygonscan_body =
     \<lparr>status = Some ''1'',
      result = Some \<lparr>SafeGasPrice = Some ''30'', ProposeGasPrice = Some ''32'',
                     FastGasPrice = Some ''35''\<rparr>\<rparr>"



text \<open>
  A reply of the primary source on which \<open>fetchFromPrimaryApi\<close> fails, and a primary
  source that keeps failing. The default configuration, a fresh \<open>PolygonGasAPI\<close>, and two
  sources that never answer.
\<close>

definition primaryFails :: "GasStationBody response \<Rightarrow> bool" where
  "primaryFails r =
     (case r of
        Body d \<Rightarrow> rawSafeLow d = None \<or> rawStandard d = None \<or> rawFast d = None
                   \<or> rawFastest d = None
      | _ \<Rightarrow> True)"

definition primary_dead :: "Upstream \<Rightarrow> bool" where
  "primary_dead up = list_all primaryFails (primaryReplies up)"

definition default_api_config :: PolygonGasAPIConfig where
  "default_api_config = \<lparr>refreshInterval = 15000, maxRetries = 3\<rparr>"

definition fresh_api :: PolygonGasAPI where
  "fresh_api = \<lparr>lastFetchedData = None, lastFetchTime = 0, retryCount = 0\<rparr>"

definition silent_upstream :: Upstream where
  "silent_upstream = \<lparr>primaryReplies = [], fallbackReplies = []\<rparr>"





text \<open>
  The requests that the state machine of the specification makes from a given counter
  while the primary source keeps failing: every failure is counted and followed by a
  retry of the primary source, until the counter exceeds the limit and the fallback is
  asked.
\<close>

definition spec_requests :: "nat \<Rightarrow> nat \<Rightarrow> endpoint list" where
  "spec_requests limit counter = replicate (limit + 1 - counter) Primary @ [Fallback]"

section \<open>Properties of the rounding\<close>

text \<open>The exponent brackets its argument, and is monotone.\<close>

lemma expo_bounds: "0 < x \<Longrightarrow> 2 powi expo x \<le> x \<and> x < 2 powi (expo x + 1)"
proof (induction x rule: expo.induct)
  case (1 x)
  show ?case
  proof (cases "2 \<le> x")
    case True
    then have e: "expo x = expo (x / 2) + 1" using 1 by (subst expo.simps) simp
    have ih: "2 powi expo (x / 2) \<le> x / 2 \<and> x / 2 < 2 powi (expo (x / 2) + 1)"
      using 1 True by simp
    show ?thesis using ih unfolding e by (simp add: power_int_add field_simps)
  next
    case False
    show ?thesis
    proof (cases "x < 1")
      case True
      then have e: "expo x = expo (x * 2) - 1" using 1 False by (subst expo.simps) simp
      have ih: "2 powi expo (x * 2) \<le> x * 2 \<and> x * 2 < 2 powi (expo (x * 2) + 1)"
        using 1 False True by simp
      show ?thesis using ih unfolding e by (simp add: power_int_add power_int_diff field_simps)
    next
      case ge: False
      then have "expo x = 0" using 1 False by (subst expo.simps) simp
      then show ?thesis using False ge by simp
    qed
  qed
qed

lemma pow2_less_imp: "(2::rat) powi a < 2 powi b \<Longrightarrow> a < b"
proof (rule ccontr)
  assume l: "(2::rat) powi a < 2 powi b" and "\<not> a < b"
  then have "b \<le> a" by simp
  then have "(2::rat) powi b \<le> 2 powi a" by (rule power_int_increasing) simp
  with l show False by simp
qed

lemma expo_unique:
  assumes "0 < x" "2 powi e \<le> x" "x < 2 powi (e + 1)"
  shows "expo x = e"
proof -
  have b: "2 powi expo x \<le> x" "x < 2 powi (expo x + 1)"
    using expo_bounds [OF assms(1)] by simp_all
  have "(2::rat) powi e < 2 powi (expo x + 1)" using assms(2) b(2) by simp
  then have 1: "e < expo x + 1" by (rule pow2_less_imp)
  have "(2::rat) powi expo x < 2 powi (e + 1)" using assms(3) b(1) by simp
  then have 2: "expo x < e + 1" by (rule pow2_less_imp)
  from 1 2 show ?thesis by simp
qed

lemma expo_mono:
  assumes "0 < x" "x \<le> y"
  shows "expo x \<le> expo y"
proof -
  have "0 < y" using assms by simp
  have "(2::rat) powi expo x \<le> x" using expo_bounds [OF assms(1)] by simp
  also have "x \<le> y" by fact
  also have "y < 2 powi (expo y + 1)" using expo_bounds [OF \<open>0 < y\<close>] by simp
  finally have "expo x < expo y + 1" by (rule pow2_less_imp)
  then show ?thesis by simp
qed

lemma round_even_range: "\<lfloor>y\<rfloor> \<le> round_even y \<and> round_even y \<le> \<lfloor>y\<rfloor> + 1"
  by (simp add: round_even_def Let_def)

lemma round_even_of_int [simp]: "round_even (of_int n) = n"
  by (simp add: round_even_def)

lemma round_even_mono:
  assumes "x \<le> y"
  shows "round_even x \<le> round_even y"
proof (cases "\<lfloor>x\<rfloor> = \<lfloor>y\<rfloor>")
  case True
  then show ?thesis using assms by (auto simp: round_even_def Let_def)
next
  case False
  then have "\<lfloor>x\<rfloor> < \<lfloor>y\<rfloor>" using floor_mono [OF assms] by simp
  then have "\<lfloor>x\<rfloor> + 1 \<le> \<lfloor>y\<rfloor>" by simp
  then show ?thesis using round_even_range [of x] round_even_range [of y] by linarith
qed

lemma round_even_err: "\<bar>of_int (round_even y) - y\<bar> \<le> 1 / 2"
proof -
  have "of_int \<lfloor>y\<rfloor> \<le> y" "y < of_int \<lfloor>y\<rfloor> + 1" by linarith+
  then show ?thesis by (auto simp: round_even_def Let_def abs_le_iff)
qed

lemma fl_zero [simp]: "fl 0 = 0"
  by (simp add: fl_def)

lemma fl_minus: "fl (- x) = - fl x"
  by (simp add: fl_def Let_def)

lemma fl_pos:
  assumes "0 < x"
  shows "fl x = of_int (round_even (x / 2 powi (expo x - 52))) * 2 powi (expo x - 52)"
  using assms by (simp add: fl_def Let_def)

lemma fl_pos_bounds:
  assumes "0 < x"
  shows "2 powi expo x \<le> fl x \<and> fl x \<le> 2 powi (expo x + 1)"
proof -
  define u :: rat where "u = 2 powi (expo x - 52)"
  have u: "0 < u" by (simp add: u_def)
  have lo: "2 powi expo x = of_int (2 ^ 52) * u"
    by (simp add: u_def power_int_diff)
  have hi: "2 powi (expo x + 1) = of_int (2 ^ 53) * u"
    by (simp add: u_def power_int_diff power_int_add)
  have "of_int (2 ^ 52) * u \<le> x" "x \<le> of_int (2 ^ 53) * u"
    using expo_bounds [OF assms] lo hi by simp_all
  then have "of_int (2 ^ 52) \<le> x / u" "x / u \<le> of_int (2 ^ 53)"
    using u by (simp_all add: field_simps)
  then have "round_even (of_int (2 ^ 52)) \<le> round_even (x / u)"
    "round_even (x / u) \<le> round_even (of_int (2 ^ 53))"
    by (simp_all only: round_even_mono)
  then have "(2 ^ 52 :: int) \<le> round_even (x / u)" "round_even (x / u) \<le> (2 ^ 53 :: int)"
    unfolding round_even_of_int by simp_all
  then have "(of_int (2 ^ 52) :: rat) \<le> of_int (round_even (x / u))"
    "(of_int (round_even (x / u)) :: rat) \<le> of_int (2 ^ 53)"
    unfolding of_int_le_iff by simp_all
  then have "of_int (2 ^ 52) * u \<le> of_int (round_even (x / u)) * u"
    "of_int (round_even (x / u)) * u \<le> of_int (2 ^ 53) * u"
    using u by (simp_all add: mult_right_mono)
  then show ?thesis unfolding lo hi fl_pos [OF assms] u_def by simp
qed

lemma fl_pos_mono:
  assumes "0 < x" "x \<le> y"
  shows "fl x \<le> fl y"
proof -
  have y: "0 < y" using assms by simp
  have le: "expo x \<le> expo y" using assms by (rule expo_mono)
  show ?thesis
  proof (cases "expo x = expo y")
    case True
    define u :: rat where "u = 2 powi (expo y - 52)"
    have u: "0 < u" by (simp add: u_def)
    have "x / u \<le> y / u" using assms u by (simp add: divide_right_mono)
    then have "round_even (x / u) \<le> round_even (y / u)" by (rule round_even_mono)
    then have "(of_int (round_even (x / u)) :: rat) \<le> of_int (round_even (y / u))" by simp
    then have "of_int (round_even (x / u)) * u \<le> of_int (round_even (y / u)) * u"
      using u by (simp add: mult_right_mono)
    then show ?thesis unfolding fl_pos [OF assms(1)] fl_pos [OF y] True u_def .
  next
    case False
    then have "expo x + 1 \<le> expo y" using le by simp
    then have "(2::rat) powi (expo x + 1) \<le> 2 powi expo y"
      by (rule power_int_increasing) simp
    then show ?thesis using fl_pos_bounds [OF assms(1)] fl_pos_bounds [OF y] by linarith
  qed
qed

lemma fl_nonneg: "0 \<le> x \<Longrightarrow> 0 \<le> fl x"
proof (cases "x = 0")
  case False
  assume "0 \<le> x"
  then have "0 < x" using False by simp
  have "(0::rat) \<le> 2 powi expo x" by simp
  then show ?thesis using fl_pos_bounds [OF \<open>0 < x\<close>] by linarith
qed simp

lemma fl_mono:
  assumes "x \<le> y"
  shows "fl x \<le> fl y"
proof -
  consider "0 < x" | "x \<le> 0" "0 \<le> y" | "y < 0" by linarith
  then show ?thesis
  proof cases
    case 1
    then show ?thesis using assms by (rule fl_pos_mono)
  next
    case 2
    have "0 \<le> fl (- x)" using 2 by (intro fl_nonneg) simp
    then have "fl x \<le> 0" by (simp add: fl_minus)
    also have "0 \<le> fl y" using 2 by (intro fl_nonneg)
    finally show ?thesis .
  next
    case 3
    have "fl (- y) \<le> fl (- x)" using 3 assms by (intro fl_pos_mono) simp_all
    then show ?thesis by (simp add: fl_minus)
  qed
qed

lemma fl_pos_err:
  assumes "0 < x"
  shows "\<bar>fl x - x\<bar> \<le> x / 2 ^ 53"
proof -
  define u :: rat where "u = 2 powi (expo x - 52)"
  have u: "0 < u" by (simp add: u_def)
  have "\<bar>of_int (round_even (x / u)) - x / u\<bar> \<le> 1 / 2" by (rule round_even_err)
  then have "\<bar>of_int (round_even (x / u)) - x / u\<bar> * u \<le> 1 / 2 * u"
    using u by (simp add: mult_right_mono)
  moreover have "\<bar>of_int (round_even (x / u)) - x / u\<bar> * u = \<bar>of_int (round_even (x / u)) * u - x\<bar>"
  proof -
    have "\<bar>of_int (round_even (x / u)) - x / u\<bar> * u = \<bar>(of_int (round_even (x / u)) - x / u) * u\<bar>"
      using u by (simp add: abs_mult)
    also have "(of_int (round_even (x / u)) - x / u) * u = of_int (round_even (x / u)) * u - x"
      using u by (simp add: algebra_simps)
    finally show ?thesis .
  qed
  ultimately have 1: "\<bar>fl x - x\<bar> \<le> u / 2"
    unfolding fl_pos [OF assms] u_def by simp
  have "2 powi expo x = of_int (2 ^ 52) * u"
    by (simp add: u_def power_int_diff)
  then have "of_int (2 ^ 52) * u \<le> x" using expo_bounds [OF assms] by simp
  then have "u / 2 \<le> x / 2 ^ 53" by (simp add: field_simps)
  with 1 show ?thesis by linarith
qed

lemma fl_err: "\<bar>fl x - x\<bar> \<le> \<bar>x\<bar> / 2 ^ 53"
proof -
  consider "0 < x" | "x = 0" | "x < 0" by linarith
  then show ?thesis
  proof cases
    case 1
    then show ?thesis using fl_pos_err [of x] by simp
  next
    case 2
    then show ?thesis by simp
  next
    case 3
    then have "\<bar>fl (- x) - (- x)\<bar> \<le> (- x) / 2 ^ 53" by (intro fl_pos_err) simp
    then show ?thesis using 3 by (simp add: fl_minus abs_le_iff)
  qed
qed

subsection \<open>Evaluating the rounding on numerals\<close>

text \<open>
  Rules that compute \<open>fl\<close> on a numeral or a quotient of numerals by integer division;
  they are stated for numerals only, so that the simplifier does not unfold \<open>fl\<close> on
  an argument it cannot evaluate.
\<close>

lemma floor_numeral_div: "\<lfloor>numeral a / numeral b :: rat\<rfloor> = numeral a div numeral b"
  using floor_divide_of_int_eq [of "numeral a" "numeral b", where ?'a = rat] by simp

lemma ceiling_numeral_div: "\<lceil>numeral a / numeral b :: rat\<rceil> = - (- numeral a div numeral b)"
  using floor_divide_of_int_eq [of "- numeral a" "numeral b", where ?'a = rat]
  by (simp add: ceiling_def)

lemma round_even_div:
  assumes "0 < b"
  shows "round_even (of_int a / of_int b) =
     (let q = a div b; r = a mod b
      in if 2 * r < b then q else if b < 2 * r then q + 1 else if even q then q else q + 1)"
proof -
  have f: "\<lfloor>(of_int a / of_int b :: rat)\<rfloor> = a div b"
    by (rule floor_divide_of_int_eq)
  have "(of_int a :: rat) = of_int (a div b * b + a mod b)" by simp
  then have "(of_int a :: rat) = of_int (a div b) * of_int b + of_int (a mod b)"
    by (simp only: of_int_add of_int_mult)
  then have fr: "(of_int a / of_int b :: rat) - of_int (a div b) = of_int (a mod b) / of_int b"
    using assms by (simp add: field_simps)
  have c1: "(of_int (a mod b) / of_int b < (1 / 2 :: rat)) = (2 * (a mod b) < b)"
  proof -
    have "(of_int (a mod b) / of_int b < (1 / 2 :: rat)) = ((of_int (2 * (a mod b)) :: rat) < of_int b)"
      using assms by (simp add: field_simps)
    then show ?thesis by (simp only: of_int_less_iff)
  qed
  have c2: "((1 / 2 :: rat) < of_int (a mod b) / of_int b) = (b < 2 * (a mod b))"
  proof -
    have "((1 / 2 :: rat) < of_int (a mod b) / of_int b) = ((of_int b :: rat) < of_int (2 * (a mod b)))"
      using assms by (simp add: field_simps)
    then show ?thesis by (simp only: of_int_less_iff)
  qed
  show ?thesis
    unfolding round_even_def Let_def f fr c1 c2 ..
qed

lemma round_even_numeral_eval:
  "round_even (numeral a / numeral b) =
     (let q = numeral a div numeral b; r = numeral a mod numeral b :: int
      in if 2 * r < numeral b then q
         else if numeral b < 2 * r then q + 1
         else if even q then q else q + 1)"
  "round_even (numeral a) = numeral a"
  using round_even_div [of "numeral b" "numeral a"] round_even_of_int [of "numeral a"]
  by simp_all

lemma fl_numeral_eval:
  "fl (numeral a) =
     of_int (round_even (numeral a / 2 powi (expo (numeral a) - 52))) * 2 powi (expo (numeral a) - 52)"
  "fl (numeral a / numeral b) =
     of_int (round_even (numeral a / numeral b / 2 powi (expo (numeral a / numeral b) - 52)))
       * 2 powi (expo (numeral a / numeral b) - 52)"
  "fl (1 / numeral b) =
     of_int (round_even (1 / numeral b / 2 powi (expo (1 / numeral b) - 52)))
       * 2 powi (expo (1 / numeral b) - 52)"
  by (simp_all add: fl_def Let_def)

lemma expo_numeral_eval:
  "expo (numeral a) =
     (if (2::rat) \<le> numeral a then expo (numeral a / 2) + 1 else 0)"
  "expo (numeral a / numeral b) =
     (if (2::rat) \<le> numeral a / numeral b then expo (numeral a / numeral b / 2) + 1
      else if numeral a / numeral b < (1::rat) then expo (numeral a / numeral b * 2) - 1
      else 0)"
  "expo (1 / numeral b) =
     (if 1 / numeral b < (1::rat) then expo (1 / numeral b * 2) - 1 else 0)"
  "expo 1 = 0"
  by (subst expo.simps, simp)+

lemma fl_one: "fl 1 = 1"
  by (simp add: fl_def Let_def expo_numeral_eval round_even_numeral_eval)

lemmas fl_eval = fl_numeral_eval fl_minus fl_one expo_numeral_eval round_even_numeral_eval Let_def
  floor_numeral_div ceiling_numeral_div

section \<open>The worked example\<close>

lemma example_settings:
  "calculateOptimalGasSettings example_policy 50 [1, 2, 3, 4] (1 / 2) =
     \<lparr>setMaxFeePerGas = Num 63, setMaxPriorityFeePerGas = Some 2, setEstimatedWaitTime = 20\<rparr>"
  by (simp add: calculateOptimalGasSettings_def example_policy_def fl_eval js_or_def js_index_def
      js_truthy_def to_number_def)

lemma example_limit: "recommendGasLimit Transfer 21000 = Limit 21000"
  by (simp add: recommendGasLimit_def fl_eval)

lemma example_costs:
  "estimateCost (Num 80) (Num 21000) = Num (fl (168 / 100000))"
  "estimateCost (Num 63) (Num 21000) = Num (fl (1323 / 1000000))"
  by (simp_all add: estimateCost_def fl_eval)

lemma example_savings:
  "calculateSavings (Num 80) (Num 63) (Num 21000) =
     (Num (823185954289289 / 2305843009213693952), Num (5981343255101441 / 281474976710656))"
  by (simp add: calculateSavings_def estimateCost_def js_gt_def fl_eval)

lemma example_values:
  "fl (168 / 100000) = 1936908127739503 / 1152921504606846976"
  "fl (1323 / 1000000) = 3050630301189717 / 2305843009213693952"
  "fl (fl (4115929771446445 / 1152921504606846976) / 100) =
     2634195053725725 / 73786976294838206464"
  "fl (23707755483531523 / 73786976294838206464) = 5926938870882881 / 18446744073709551616"
  by (simp_all add: fl_eval)

lemma example_level:
  "determineSavingsLevel (Num (5981343255101441 / 281474976710656)) (1 / 2) = High"
  by (simp add: determineSavingsLevel_def js_gt_def)

lemma example_policy_fields:
  "aggressiveness example_policy = Balanced" "maxWaitTime example_policy = 30"
  "minSavingsPercent example_policy = 5" "feePercent example_policy = 10"
  by (simp_all add: example_policy_def)

text \<open>
  C1. For the snapshot with base fee 50, priority fees 1, 2, 3, 4 and congestion 0.5, and
  the transfer intent with gas limit 21000, maximum fee 80 and priority fee 5, under the
  balanced policy (minimum savings 5 percent, maximum wait 30 seconds, fee 10 percent),
  \<open>optimizeGas\<close> returns the optimized priority fee 2, the optimized maximum fee 63 and
  the wait time 20; the original cost is the double 0.00168 and the optimized cost the
  double 0.001323; the savings are about 21.25 percent, the savings level is high and the
  verdict is to optimize; the service fee is the savings times 10 divided by 100, about
  0.0000357, and the net savings are about 0.0003213.
\<close>

theorem example_scenario:
  fixes ep :: "rat EstimatedPrices" and src :: string and ts :: nat
  defines "r \<equiv> optimizeGas example_policy
       \<lparr>baseFee = 50, priorityFeeRange = [1, 2, 3, 4], networkCongestion = 1 / 2,
        estimatedPrices = ep, source = src, timestamp = ts\<rparr> example_intent"
  shows "optMaxPriorityFeePerGas (optimized r) = Some 2
    \<and> optMaxFeePerGas (optimized r) = Num 63
    \<and> optEstimatedWaitTime (optimized r) = 20
    \<and> origEstimatedCostInMatic (original r) = Num (fl (168 / 100000))
    \<and> optEstimatedCostInMatic (optimized r) = Num (fl (1323 / 1000000))
    \<and> near (savingsPercent (savings r)) (2125 / 100) (1 / 10 ^ 12)
    \<and> savingsLevel (savings r) = High
    \<and> shouldOptimizeVerdict r
    \<and> feeInMatic (fee r) = fdiv (fmul (savingsInMatic (savings r)) (Num 10)) (Num 100)
    \<and> near (feeInMatic (fee r)) (357 / 10 ^ 7) (1 / 10 ^ 15)
    \<and> near (netSavings r) (3213 / 10 ^ 7) (1 / 10 ^ 15)"
  unfolding r_def
  by (simp add: optimizeGas_def Let_def example_intent_def example_settings example_limit
      example_savings example_costs example_level near_def shouldOptimize_def js_ge_def
      js_gt_def example_policy_fields example_values)

section \<open>Selection of the priority fee and the maximum fee\<close>

lemma strategy_spec:
  "priorityFeePercentile (strategy a c) = spec_percentile a c"
  "maxFeePadding (strategy a c) = spec_padding a"
  by (cases a; simp add: spec_percentile_def spec_padding_def)+

lemma js_index_zero: "js_index xs 0 = spec_lowest xs"
  by (cases xs) (simp_all add: js_index_def spec_lowest_def)

lemma select_nonneg:
  assumes "sorted xs" "\<forall>x\<in>set xs. 0 \<le> x"
  shows "js_or (js_index xs \<lfloor>fl (of_nat (length xs) * p)\<rfloor>) (js_index xs 0) = spec_select xs p"
proof -
  define i where "i = \<lfloor>fl (of_nat (length xs) * p)\<rfloor>"
  show ?thesis
  proof (cases "0 \<le> i \<and> nat i < length xs")
    case True
    then have idx: "js_index xs i = Some (xs ! nat i)" by (simp add: js_index_def)
    have spec: "spec_select xs p = Some (xs ! nat i)"
      using True by (simp add: spec_select_def i_def [symmetric])
    show ?thesis
    proof (cases "xs ! nat i = 0")
      case nz: False
      then show ?thesis using idx spec by (simp add: js_or_def js_truthy_def i_def [symmetric])
    next
      case z: True
      have len: "0 < length xs" using True by (cases xs) simp_all
      have "xs ! 0 \<le> xs ! nat i" using assms(1) True by (simp add: sorted_nth_mono)
      moreover have "0 \<le> xs ! 0" using assms(2) len by simp
      ultimately have "xs ! 0 = 0" using z by simp
      moreover have "js_index xs 0 = Some (xs ! 0)" using len by (simp add: js_index_def)
      ultimately show ?thesis
        using idx spec z by (simp add: js_or_def js_truthy_def i_def [symmetric])
    qed
  next
    case False
    then have "js_index xs i = None" by (auto simp: js_index_def)
    moreover have "spec_select xs p = spec_lowest xs"
      using False by (auto simp: spec_select_def i_def [symmetric])
    ultimately show ?thesis
      by (simp add: js_or_def js_truthy_def i_def [symmetric] js_index_zero)
  qed
qed

lemma settings_spec:
  assumes "\<forall>x\<in>set fees. 0 \<le> x"
  shows "setMaxPriorityFeePerGas (calculateOptimalGasSettings cfg base fees c) =
           spec_select (sort fees) (spec_percentile (aggressiveness cfg) c)"
    and "setMaxFeePerGas (calculateOptimalGasSettings cfg base fees c) =
           js_ceil (fmul (fadd (Num base)
             (to_number (spec_select (sort fees) (spec_percentile (aggressiveness cfg) c))))
             (Num (spec_padding (aggressiveness cfg))))"
proof -
  have "sorted (sort fees)" "\<forall>x\<in>set (sort fees). 0 \<le> x" using assms by simp_all
  then have sel: "js_or (js_index (sort fees) \<lfloor>fl (of_nat (length fees) * p)\<rfloor>)
      (js_index (sort fees) 0) = spec_select (sort fees) p" for p
    using select_nonneg [of "sort fees" p] by simp
  show "setMaxPriorityFeePerGas (calculateOptimalGasSettings cfg base fees c) =
           spec_select (sort fees) (spec_percentile (aggressiveness cfg) c)"
    unfolding calculateOptimalGasSettings_def Let_def by (simp add: sel strategy_spec)
  show "setMaxFeePerGas (calculateOptimalGasSettings cfg base fees c) =
           js_ceil (fmul (fadd (Num base)
             (to_number (spec_select (sort fees) (spec_percentile (aggressiveness cfg) c))))
             (Num (spec_padding (aggressiveness cfg))))"
    unfolding calculateOptimalGasSettings_def Let_def by (simp add: sel strategy_spec)
qed

lemma optimized_settings:
  "optMaxPriorityFeePerGas (optimized (optimizeGas cfg g tx)) =
     setMaxPriorityFeePerGas (calculateOptimalGasSettings cfg (baseFee g) (priorityFeeRange g)
       (networkCongestion g))"
  "optMaxFeePerGas (optimized (optimizeGas cfg g tx)) =
     setMaxFeePerGas (calculateOptimalGasSettings cfg (baseFee g) (priorityFeeRange g)
       (networkCongestion g))"
  by (simp_all add: optimizeGas_def Let_def)

text \<open>
  C2. For every snapshot (its priority fees are non-negative numbers), the optimized
  priority fee is the value at index \<open>floor(length * percentile)\<close> of the priority
  fees sorted ascending, or the lowest value of the sorted range when that index is out of
  range, and the optimized maximum fee is \<open>ceil((baseFee + selectedPriorityFee) * padding)\<close>,
  with the percentile and the padding of the table.
\<close>

theorem priority_fee_selection:
  assumes "\<forall>x\<in>set (priorityFeeRange g). 0 \<le> x"
  shows "optMaxPriorityFeePerGas (optimized (optimizeGas cfg g tx)) =
           spec_select (sort (priorityFeeRange g))
             (spec_percentile (aggressiveness cfg) (networkCongestion g))
       \<and> optMaxFeePerGas (optimized (optimizeGas cfg g tx)) =
           js_ceil (fmul (fadd (Num (baseFee g))
               (to_number (optMaxPriorityFeePerGas (optimized (optimizeGas cfg g tx)))))
             (Num (spec_padding (aggressiveness cfg))))"
  using settings_spec [OF assms] by (simp add: optimized_settings)

lemma spec_example_values:
  "spec_percentile Balanced (1 / 2) = fl (2 / 5)"
  "spec_padding Balanced = fl (6 / 5)"
  by (simp_all add: spec_percentile_def spec_padding_def fl_eval)

theorem priority_fee_selection_witness:
  "list_all (\<lambda>x. 0 \<le> x) (priorityFeeRange example_snapshot)
   \<and> optMaxPriorityFeePerGas (optimized (optimizeGas example_policy example_snapshot example_intent))
       = Some 2
   \<and> optMaxFeePerGas (optimized (optimizeGas example_policy example_snapshot example_intent))
       = Num 63"
proof -
  have h: "\<forall>x\<in>set (priorityFeeRange example_snapshot). 0 \<le> x"
    by (simp add: example_snapshot_def)
  have sel: "spec_select (sort (priorityFeeRange example_snapshot))
      (spec_percentile (aggressiveness example_policy) (networkCongestion example_snapshot)) = Some 2"
    by (simp add: example_snapshot_def example_policy_def spec_select_def spec_percentile_def fl_eval)
  have pad: "js_ceil (fmul (fadd (Num (baseFee example_snapshot)) (to_number (Some 2)))
      (Num (spec_padding (aggressiveness example_policy)))) = Num 63"
    by (simp add: example_snapshot_def example_policy_def spec_padding_def to_number_def fl_eval)
  show ?thesis
    using h priority_fee_selection [OF h, of example_policy example_intent] sel pad
    by (simp add: list_all_iff)
qed

section \<open>The recommended gas limit\<close>

lemma optimized_limit:
  "optGasLimit (optimized (optimizeGas cfg g tx)) =
     recommendGasLimit (txType tx) (case gasLimit tx of None \<Rightarrow> 21000 | Some u \<Rightarrow> u)"
  by (simp add: optimizeGas_def Let_def)

lemma table_default:
  "table_type t \<Longrightarrow> gasLimitRecommendations t = Some (Limit (spec_default t))"
  by (cases t) (simp_all add: spec_default_def table_type_def)

lemma default_ge: "21000 \<le> spec_default t"
  by (cases t) (simp_all add: spec_default_def)

lemma eighty_percent:
  "table_type t \<Longrightarrow> fl (spec_default t * fl (4 / 5)) = 4 / 5 * spec_default t"
  by (cases t) (simp_all add: spec_default_def table_type_def fl_eval)

lemma recommend_supplied:
  assumes "table_type t"
  shows "recommendGasLimit t u = Limit (spec_recommend t (Some u))"
proof -
  have d: "gasLimitRecommendations t = Some (Limit (spec_default t))"
    using assms by (rule table_default)
  have nz: "spec_default t \<noteq> 0"
    using default_ge [of t] by simp
  have e: "fl (spec_default t * fl (4 / 5)) = 4 / 5 * spec_default t"
    using assms by (rule eighty_percent)
  show ?thesis
    by (auto simp: recommendGasLimit_def Let_def d nz e spec_recommend_def)
qed

lemma recommend_absent:
  "table_type t \<Longrightarrow> recommendGasLimit t 21000 = Limit (spec_default t)"
  by (cases t) (simp_all add: recommendGasLimit_def spec_default_def table_type_def fl_eval)

lemma recommend_known:
  assumes "table_type t"
  shows "recommendGasLimit t (case supplied of None \<Rightarrow> 21000 | Some u \<Rightarrow> u) =
     Limit (spec_recommend t supplied)"
proof (cases supplied)
  case None
  then show ?thesis using recommend_absent [OF assms] by (simp add: spec_recommend_def)
next
  case (Some u)
  then show ?thesis using recommend_supplied [OF assms] by simp
qed

text \<open>
  Outside the table: the explicit guard keeps a limit of at least 21000, for a name that
  the table inherits because the comparison with \<open>NaN\<close> is false; a lower limit gets
  100000 when the lookup yields \<open>undefined\<close>.
\<close>

lemma recommend_outside:
  assumes "\<not> table_type t" "21000 \<le> u"
  shows "recommendGasLimit t u = Limit u"
  using assms by (cases t) (simp_all add: recommendGasLimit_def table_type_def)

lemma recommend_other_low:
  "u < 21000 \<Longrightarrow> recommendGasLimit OtherType u = Limit 100000"
  by (simp add: recommendGasLimit_def)

text \<open>
  C3 as it is stated fails for a type outside the table: a supplied limit of 30000 is
  below 80 percent of the default 100000 that the statement gives such a type, so the
  statement promises 100000; \<open>recommendGasLimit\<close> has a guard for a type without a
  recommendation, which keeps the caller's 30000.
\<close>

theorem gas_limit_unknown_type_counterexample:
  "optGasLimit (optimized (optimizeGas example_policy example_snapshot
       (intent_of OtherType (Some 30000)))) = Limit 30000
   \<and> spec_recommend OtherType (Some 30000) = 100000"
  by (simp add: optimized_limit recommendGasLimit_def intent_of_def spec_recommend_def
      spec_default_def)

text \<open>
  C3, amended. For an intent of one of the six types of the table, the recommended gas
  limit is the default of the type (transfer 21000, erc20 transfer 65000, swap 200000,
  nft mint 250000, nft transfer 100000, contract interaction 150000) when no limit is
  supplied or the supplied limit is below 21000 or below 80 percent of the default, and
  the caller's limit otherwise. For a type outside the table, a supplied limit of at
  least 21000 is kept unchanged, and a supplied limit below 21000 gives 100000 when the
  type names no property that the table inherits. A swap with the limit 10000 gets
  200000.
\<close>

theorem gas_limit_recommendation:
  "(table_type (txType tx) \<longrightarrow>
      optGasLimit (optimized (optimizeGas cfg g tx)) =
        Limit (spec_recommend (txType tx) (gasLimit tx)))
   \<and> (\<not> table_type (txType tx) \<and> gasLimit tx = Some u \<and> 21000 \<le> u \<longrightarrow>
      optGasLimit (optimized (optimizeGas cfg g tx)) = Limit u)
   \<and> (txType tx = OtherType \<and> gasLimit tx = Some u \<and> u < 21000 \<longrightarrow>
      optGasLimit (optimized (optimizeGas cfg g tx)) = Limit 100000)
   \<and> optGasLimit (optimized (optimizeGas cfg g (intent_of Swap (Some 10000)))) = Limit 200000"
proof (intro conjI impI)
  assume "table_type (txType tx)"
  then show "optGasLimit (optimized (optimizeGas cfg g tx)) =
      Limit (spec_recommend (txType tx) (gasLimit tx))"
    by (simp add: optimized_limit recommend_known)
next
  assume "\<not> table_type (txType tx) \<and> gasLimit tx = Some u \<and> 21000 \<le> u"
  then show "optGasLimit (optimized (optimizeGas cfg g tx)) = Limit u"
    by (simp add: optimized_limit recommend_outside)
next
  assume "txType tx = OtherType \<and> gasLimit tx = Some u \<and> u < 21000"
  then show "optGasLimit (optimized (optimizeGas cfg g tx)) = Limit 100000"
    by (simp add: optimized_limit recommend_other_low)
next
  show "optGasLimit (optimized (optimizeGas cfg g (intent_of Swap (Some 10000)))) = Limit 200000"
    by (simp add: optimized_limit intent_of_def recommendGasLimit_def)
qed

theorem gas_limit_recommendation_witness:
  "table_type (txType (intent_of Erc20Transfer (Some 30000)))
   \<and> optGasLimit (optimized (optimizeGas example_policy example_snapshot
        (intent_of Erc20Transfer (Some 30000)))) = Limit 65000
   \<and> table_type (txType (intent_of NftMint None))
   \<and> optGasLimit (optimized (optimizeGas example_policy example_snapshot
        (intent_of NftMint None))) = Limit 250000
   \<and> \<not> table_type (txType (intent_of InheritedName (Some 30000)))
   \<and> optGasLimit (optimized (optimizeGas example_policy example_snapshot
        (intent_of InheritedName (Some 30000)))) = Limit 30000
   \<and> txType (intent_of OtherType (Some 10000)) = OtherType
   \<and> optGasLimit (optimized (optimizeGas example_policy example_snapshot
        (intent_of OtherType (Some 10000)))) = Limit 100000"
  using gas_limit_recommendation [of "intent_of Erc20Transfer (Some 30000)" example_policy
      example_snapshot]
    gas_limit_recommendation [of "intent_of NftMint None" example_policy example_snapshot]
    gas_limit_recommendation [of "intent_of InheritedName (Some 30000)" example_policy
      example_snapshot 30000]
    gas_limit_recommendation [of "intent_of OtherType (Some 10000)" example_policy
      example_snapshot 10000]
  by (simp add: intent_of_def spec_recommend_def spec_default_def table_type_def)

section \<open>The congestion score\<close>

lemmas parse_eval = parseInt_def isWhiteSpace_def isRadixDigit_def digitOf_def digitsValue_def

lemma gas_station_congestion:
  "normalizeGasStationData now d = Inr g \<Longrightarrow>
     networkCongestion g = js_min (Num 1) (fdiv (baseFee g) (Num 100))"
  by (auto simp: normalizeGasStationData_def Let_def split: option.splits)

lemma polygonscan_congestion:
  "normalizePolygonscanData now p = Inr g \<Longrightarrow>
     networkCongestion g = js_min (Num 1) (fdiv (baseFee g) (Num 100))"
  by (auto simp: normalizePolygonscanData_def Let_def split: if_splits)

lemma clamp_unit:
  assumes "0 \<le> b"
  shows "\<exists>c. js_min (Num 1) (fdiv (Num b) (Num 100)) = Num c \<and> 0 \<le> c \<and> c \<le> 1
           \<and> (100 \<le> b \<longrightarrow> c = 1)"
proof -
  have nn: "0 \<le> fl (b / 100)" using assms by (intro fl_nonneg) simp
  have "100 \<le> b \<Longrightarrow> 1 \<le> fl (b / 100)"
  proof -
    assume "100 \<le> b"
    then have "fl 1 \<le> fl (b / 100)" by (intro fl_mono) simp
    then show ?thesis by (simp add: fl_one)
  qed
  then show ?thesis using nn by (auto simp: min_def)
qed

text \<open>
  C4. For every upstream response that either normalizer accepts and whose derived base
  fee is a number \<open>b \<ge> 0\<close>, the network congestion is a number in \<open>[0, 1]\<close>, and it is
  1 whenever \<open>b \<ge> 100\<close>.
\<close>

theorem congestion_clamp:
  assumes "normalizeGasStationData now d = Inr g \<or> normalizePolygonscanData now p = Inr g"
    and "baseFee g = Num b" and "0 \<le> b"
  shows "\<exists>c. networkCongestion g = Num c \<and> 0 \<le> c \<and> c \<le> 1 \<and> (100 \<le> b \<longrightarrow> c = 1)"
proof -
  have "networkCongestion g = js_min (Num 1) (fdiv (Num b) (Num 100))"
    using assms(1,2) gas_station_congestion polygonscan_congestion by metis
  then show ?thesis using clamp_unit [OF assms(3)] by simp
qed

lemma example_gas_station_snapshot:
  "normalizeGasStationData 0 example_gas_station_body =
     Inr \<lparr>baseFee = Num 100, priorityFeeRange = [Num 25, Num 30, Num 35, Num 40],
          networkCongestion = Num 1,
          estimatedPrices =
            \<lparr>safeLow = \<lparr>tierMaxFeePerGas = Num 110, tierMaxPriorityFeePerGas = Num 25\<rparr>,
             standard = \<lparr>tierMaxFeePerGas = Num 130, tierMaxPriorityFeePerGas = Num 30\<rparr>,
             fast = \<lparr>tierMaxFeePerGas = Num 150, tierMaxPriorityFeePerGas = Num 35\<rparr>,
             fastest = \<lparr>tierMaxFeePerGas = Num 180, tierMaxPriorityFeePerGas = Num 40\<rparr>\<rparr>,
          source = ''gasStation'', timestamp = 0\<rparr>"
  by (simp add: normalizeGasStationData_def example_gas_station_body_def parse_eval fl_eval)

lemma example_polygonscan_snapshot:
  "normalizePolygonscanData 0 example_polygonscan_body =
     Inr \<lparr>baseFee = Num 25, priorityFeeRange = [Num 5, Num 7, Num 10, Num 12],
          networkCongestion = Num (1 / 4),
          estimatedPrices =
            \<lparr>safeLow = \<lparr>tierMaxFeePerGas = Num 30, tierMaxPriorityFeePerGas = Num 5\<rparr>,
             standard = \<lparr>tierMaxFeePerGas = Num 32, tierMaxPriorityFeePerGas = Num 7\<rparr>,
             fast = \<lparr>tierMaxFeePerGas = Num 35, tierMaxPriorityFeePerGas = Num 10\<rparr>,
             fastest = \<lparr>tierMaxFeePerGas = Num 42, tierMaxPriorityFeePerGas = Num 12\<rparr>\<rparr>,
          source = ''polygonscan'', timestamp = 0\<rparr>"
  by (simp add: normalizePolygonscanData_def example_polygonscan_body_def parse_eval fl_eval)

theorem congestion_clamp_witness:
  "(\<exists>g. normalizeGasStationData 0 example_gas_station_body = Inr g \<and> baseFee g = Num 100
        \<and> networkCongestion g = Num 1)
   \<and> (\<exists>g. normalizePolygonscanData 0 example_polygonscan_body = Inr g \<and> baseFee g = Num 25
        \<and> (\<exists>c. networkCongestion g = Num c \<and> 0 \<le> c \<and> c \<le> 1))"
proof -
  obtain g where g: "normalizeGasStationData 0 example_gas_station_body = Inr g"
    "baseFee g = Num 100"
    using example_gas_station_snapshot by simp
  obtain h where h: "normalizePolygonscanData 0 example_polygonscan_body = Inr h"
    "baseFee h = Num 25"
    using example_polygonscan_snapshot by simp
  have "\<exists>c. networkCongestion g = Num c \<and> 0 \<le> c \<and> c \<le> 1 \<and> (100 \<le> (100::rat) \<longrightarrow> c = 1)"
    using congestion_clamp [where now = 0 and d = example_gas_station_body and p = example_polygonscan_body
        and g = g and b = 100] g
    by simp
  moreover have "\<exists>c. networkCongestion h = Num c \<and> 0 \<le> c \<and> c \<le> 1 \<and> (100 \<le> (25::rat) \<longrightarrow> c = 1)"
    using congestion_clamp [where now = 0 and d = example_gas_station_body and p = example_polygonscan_body
        and g = h and b = 25] h
    by simp
  ultimately show ?thesis using g h by auto
qed


section \<open>Tier monotonicity\<close>

lemma decimal_digit_code:
  assumes "isRadixDigit 10 c"
  shows "48 \<le> (of_char c :: nat) \<and> (of_char c :: nat) \<le> 57"
  using assms by (auto simp: isRadixDigit_def digitOf_def Let_def split: if_splits option.splits)

lemma decimal_digit_plain:
  assumes "isRadixDigit 10 c"
  shows "\<not> isWhiteSpace c" "c \<noteq> CHR ''-''" "c \<noteq> CHR ''+''" "c \<noteq> CHR ''x''" "c \<noteq> CHR ''X''"
  using decimal_digit_code [OF assms] by (auto simp: isWhiteSpace_def)

lemma takeWhile_all: "list_all P xs \<Longrightarrow> takeWhile P xs = xs"
  by (induction xs) simp_all

lemma parseInt_decimal:
  assumes "isDecimal s"
  shows "parseInt (Some s) = Num (fl (of_nat (digitsValue 10 s)))"
proof -
  obtain c cs where s: "s = c # cs" and c: "isRadixDigit 10 c" and cs: "list_all (isRadixDigit 10) cs"
    using assms by (cases s) (auto simp: isDecimal_def)
  have f1: "dropWhile isWhiteSpace s = s"
    using s decimal_digit_plain(1) [OF c] by simp
  have f2: "s \<noteq> []" "hd s \<noteq> CHR ''-''" "hd s \<noteq> CHR ''+''"
    using s decimal_digit_plain(2,3) [OF c] by simp_all
  have f3: "take 2 s \<noteq> ''0x''" "take 2 s \<noteq> ''0X''"
    using s cs decimal_digit_plain(4,5) by (cases cs; auto)+
  have f4: "takeWhile (isRadixDigit 10) s = s"
    using s c cs by (intro takeWhile_all) simp
  show ?thesis
    unfolding parseInt_def Let_def option.case f1 using f2 f3 by (simp add: f4)
qed

lemma parseInt_field:
  "decimalField v \<Longrightarrow> parseInt v = Num (fl (of_nat (valueOf v)))"
  by (cases v) (simp_all add: decimalField_def valueOf_def parseInt_decimal)

lemma parsed_mono:
  assumes "decimalField v" "decimalField w" "valueOf v \<le> valueOf w"
  shows "js_le (parseInt v) (parseInt w)"
proof -
  have "(of_nat (valueOf v) :: rat) \<le> of_nat (valueOf w)" using assms(3) by simp
  then have "fl (of_nat (valueOf v)) \<le> fl (of_nat (valueOf w))" by (rule fl_mono)
  then show ?thesis using assms(1,2) by (simp add: parseInt_field)
qed

lemma fl_six_fifths: "fl (6 / 5) = 5404319552844595 / 4503599627370496"
  by (simp add: fl_eval)

lemma padded_ceiling_ge:
  assumes "0 \<le> x"
  shows "x \<le> of_int \<lceil>fl (x * fl (6 / 5))\<rceil>"
proof -
  define y where "y = x * fl (6 / 5)"
  have y: "0 \<le> y" "119 / 100 * x \<le> y" using assms by (simp_all add: y_def fl_six_fifths)
  have "\<bar>fl y - y\<bar> \<le> \<bar>y\<bar> / 2 ^ 53" by (rule fl_err)
  moreover have "y - fl y \<le> \<bar>fl y - y\<bar>" by simp
  moreover have "\<bar>y\<bar> / 2 ^ 53 \<le> y / 100"
    using y(1) by (simp add: divide_left_mono)
  ultimately have "y - y / 100 \<le> fl y" by linarith
  then have "x \<le> fl y" using y(2) assms by linarith
  also have "fl y \<le> of_int \<lceil>fl y\<rceil>" by (rule le_of_int_ceiling)
  finally show ?thesis by (simp add: y_def)
qed

lemma fastest_ge_fast:
  assumes "decimalField v"
  shows "js_le (parseInt v) (js_ceil (fmul (parseInt v) (Num (fl (6 / 5)))))"
proof -
  have "0 \<le> fl (of_nat (valueOf v))" by (intro fl_nonneg) simp
  then show ?thesis using assms padded_ceiling_ge by (simp add: parseInt_field)
qed

text \<open>
  C5. For every raw input with ascending tier values (gas-station shape: the four
  \<open>maxFee\<close> texts are non-negative integers that ascend; polygonscan shape: successful
  status and \<open>SafeGasPrice \<le> ProposeGasPrice \<le> FastGasPrice\<close>, non-negative integers),
  normalization succeeds with all four tiers, and
  \<open>safeLow.maxFeePerGas \<le> standard.maxFeePerGas \<le> fast.maxFeePerGas \<le> fastest.maxFeePerGas\<close>.
\<close>

theorem tier_monotonicity:
  "(ascending_gas_station d \<longrightarrow>
      (\<exists>g. normalizeGasStationData now d = Inr g \<and> tiers_ascending g))
   \<and> (ascending_polygonscan p \<longrightarrow>
      (\<exists>g. normalizePolygonscanData now p = Inr g \<and> tiers_ascending g))"
proof (intro conjI impI)
  assume a: "ascending_gas_station d"
  then obtain sl sd fa fs where t: "rawSafeLow d = Some sl" "rawStandard d = Some sd"
      "rawFast d = Some fa" "rawFastest d = Some fs"
    by (auto simp: ascending_gas_station_def split: option.splits)
  have le: "js_le (parseInt (maxFee sl)) (parseInt (maxFee sd))"
    "js_le (parseInt (maxFee sd)) (parseInt (maxFee fa))"
    "js_le (parseInt (maxFee fa)) (parseInt (maxFee fs))"
    using a t by (simp_all add: ascending_gas_station_def parsed_mono)
  show "\<exists>g. normalizeGasStationData now d = Inr g \<and> tiers_ascending g"
    using t le by (simp add: normalizeGasStationData_def Let_def tiers_ascending_def)
next
  assume a: "ascending_polygonscan p"
  then obtain res where r: "status p = Some ''1''" "result p = Some res"
    by (auto simp: ascending_polygonscan_def split: option.splits)
  have le: "js_le (parseInt (SafeGasPrice res)) (parseInt (ProposeGasPrice res))"
    "js_le (parseInt (ProposeGasPrice res)) (parseInt (FastGasPrice res))"
    "js_le (parseInt (FastGasPrice res))
       (js_ceil (fmul (parseInt (FastGasPrice res)) (Num (fl (6 / 5)))))"
    using a r by (simp_all add: ascending_polygonscan_def parsed_mono fastest_ge_fast)
  show "\<exists>g. normalizePolygonscanData now p = Inr g \<and> tiers_ascending g"
    using r le by (simp add: normalizePolygonscanData_def Let_def tiers_ascending_def)
qed

lemma example_bodies_ascending:
  "ascending_gas_station example_gas_station_body"
  "ascending_polygonscan example_polygonscan_body"
  by (simp_all add: ascending_gas_station_def ascending_polygonscan_def
      example_gas_station_body_def example_polygonscan_body_def decimalField_def isDecimal_def
      valueOf_def isRadixDigit_def digitOf_def digitsValue_def)

theorem tier_monotonicity_witness:
  "ascending_gas_station example_gas_station_body
   \<and> (\<exists>g. normalizeGasStationData 0 example_gas_station_body = Inr g \<and> tiers_ascending g)
   \<and> ascending_polygonscan example_polygonscan_body
   \<and> (\<exists>g. normalizePolygonscanData 0 example_polygonscan_body = Inr g \<and> tiers_ascending g)"
  using tier_monotonicity [of example_gas_station_body 0 example_polygonscan_body]
    example_bodies_ascending
  by simp


section \<open>What the normalizers reject\<close>


lemma gas_station_fails_iff:
  "(normalizeGasStationData now d = Inl e) =
     (e = TypeError \<and> (rawSafeLow d = None \<or> rawStandard d = None \<or> rawFast d = None
        \<or> rawFastest d = None))"
  by (auto simp: normalizeGasStationData_def Let_def split: option.splits)









section \<open>Monotonicity in the base fee\<close>

lemma padding_nonneg: "0 \<le> maxFeePadding (strategy a c)"
  by (cases a) (simp_all add: fl_nonneg)

lemma padded_mono:
  assumes "b \<le> b'" "0 \<le> pad"
  shows "js_le (js_ceil (fmul (fadd (Num b) (Num q)) (Num pad)))
               (js_ceil (fmul (fadd (Num b') (Num q)) (Num pad)))"
proof -
  have "fl (b + q) \<le> fl (b' + q)" using assms(1) by (intro fl_mono) simp
  then have "fl (b + q) * pad \<le> fl (b' + q) * pad" using assms(2) by (rule mult_right_mono)
  then have "fl (fl (b + q) * pad) \<le> fl (fl (b' + q) * pad)" by (rule fl_mono)
  then have "\<lceil>fl (fl (b + q) * pad)\<rceil> \<le> \<lceil>fl (fl (b' + q) * pad)\<rceil>" by (rule ceiling_mono)
  then show ?thesis by simp
qed

lemma settings_shape:
  "setMaxFeePerGas (calculateOptimalGasSettings cfg b fees c) =
     js_ceil (fmul (fadd (Num b)
       (to_number (setMaxPriorityFeePerGas (calculateOptimalGasSettings cfg b fees c))))
       (Num (maxFeePadding (strategy (aggressiveness cfg) c))))"
  by (simp add: calculateOptimalGasSettings_def Let_def)

lemma priority_fee_independent:
  "setMaxPriorityFeePerGas (calculateOptimalGasSettings cfg b fees c) =
     setMaxPriorityFeePerGas (calculateOptimalGasSettings cfg b' fees c)"
  by (simp add: calculateOptimalGasSettings_def Let_def)

lemma priority_fee_defined:
  assumes "fees \<noteq> []"
  shows "\<exists>q. setMaxPriorityFeePerGas (calculateOptimalGasSettings cfg b fees c) = Some q"
proof -
  have idx: "js_index (sort fees) 0 = Some (sort fees ! 0)"
    using assms by (simp add: js_index_def)
  have "\<exists>q. js_or a (js_index (sort fees) 0) = Some q" for a
    unfolding idx by (cases a) (auto simp: js_or_def js_truthy_def)
  then show ?thesis unfolding calculateOptimalGasSettings_def Let_def by simp
qed

lemma settings_mono:
  assumes "b \<le> b'"
  shows "\<not> js_lt (setMaxFeePerGas (calculateOptimalGasSettings cfg b' fees c))
                 (setMaxFeePerGas (calculateOptimalGasSettings cfg b fees c))"
    and "fees \<noteq> [] \<Longrightarrow>
         js_le (setMaxFeePerGas (calculateOptimalGasSettings cfg b fees c))
               (setMaxFeePerGas (calculateOptimalGasSettings cfg b' fees c))"
proof -
  define p where "p = setMaxPriorityFeePerGas (calculateOptimalGasSettings cfg b fees c)"
  have p': "setMaxPriorityFeePerGas (calculateOptimalGasSettings cfg b' fees c) = p"
    unfolding p_def by (rule priority_fee_independent)
  define pad where "pad = maxFeePadding (strategy (aggressiveness cfg) c)"
  have pad: "0 \<le> pad" unfolding pad_def by (rule padding_nonneg)
  have s: "setMaxFeePerGas (calculateOptimalGasSettings cfg b fees c) =
      js_ceil (fmul (fadd (Num b) (to_number p)) (Num pad))"
    unfolding p_def pad_def by (rule settings_shape)
  have s': "setMaxFeePerGas (calculateOptimalGasSettings cfg b' fees c) =
      js_ceil (fmul (fadd (Num b') (to_number p)) (Num pad))"
    using settings_shape [of cfg b' fees c] unfolding p' pad_def .
  show "\<not> js_lt (setMaxFeePerGas (calculateOptimalGasSettings cfg b' fees c))
                 (setMaxFeePerGas (calculateOptimalGasSettings cfg b fees c))"
  proof (cases p)
    case None
    then show ?thesis unfolding s s' by (simp add: to_number_def)
  next
    case (Some q)
    have "js_le (js_ceil (fmul (fadd (Num b) (Num q)) (Num pad)))
               (js_ceil (fmul (fadd (Num b') (Num q)) (Num pad)))"
      using assms pad by (rule padded_mono)
    then show ?thesis unfolding s s' using Some by (simp add: to_number_def)
  qed
  show "js_le (setMaxFeePerGas (calculateOptimalGasSettings cfg b fees c))
               (setMaxFeePerGas (calculateOptimalGasSettings cfg b' fees c))" if ne: "fees \<noteq> []"
  proof -
    obtain q where "p = Some q" using priority_fee_defined [OF ne] unfolding p_def by blast
    then show ?thesis unfolding s s' using padded_mono [OF assms pad] by (simp add: to_number_def)
  qed
qed

lemma optimized_max_fee:
  "optMaxFeePerGas (optimized (optimizeGas cfg g tx)) =
     setMaxFeePerGas (calculateOptimalGasSettings cfg (baseFee g) (priorityFeeRange g)
       (networkCongestion g))"
  by (simp add: optimizeGas_def Let_def)

text \<open>
  C7. For a fixed network congestion, a fixed transaction intent and a fixed policy,
  raising the base fee of the snapshot never lowers the optimized maximum fee that
  \<open>optimizeGas\<close> returns: the fee after is never less than the fee before, and with a
  non-empty priority fee range both are numbers in ascending order.
\<close>

theorem max_fee_monotone:
  assumes "b \<le> b'"
  shows "\<not> js_lt (optMaxFeePerGas (optimized (optimizeGas cfg (g\<lparr>baseFee := b'\<rparr>) tx)))
                 (optMaxFeePerGas (optimized (optimizeGas cfg (g\<lparr>baseFee := b\<rparr>) tx)))
       \<and> (priorityFeeRange g \<noteq> [] \<longrightarrow>
           js_le (optMaxFeePerGas (optimized (optimizeGas cfg (g\<lparr>baseFee := b\<rparr>) tx)))
                 (optMaxFeePerGas (optimized (optimizeGas cfg (g\<lparr>baseFee := b'\<rparr>) tx))))"
  using settings_mono [OF assms] by (simp add: optimized_max_fee)

lemma example_raised:
  "optMaxFeePerGas (optimized (optimizeGas example_policy (example_snapshot\<lparr>baseFee := 50\<rparr>)
      example_intent)) = Num 63"
  "optMaxFeePerGas (optimized (optimizeGas example_policy (example_snapshot\<lparr>baseFee := 60\<rparr>)
      example_intent)) = Num 75"
  by (simp_all add: optimized_max_fee calculateOptimalGasSettings_def example_policy_def
      example_snapshot_def fl_eval js_or_def js_index_def js_truthy_def to_number_def)

theorem max_fee_monotone_witness:
  "(50::rat) \<le> 60
   \<and> priorityFeeRange example_snapshot \<noteq> []
   \<and> js_le (optMaxFeePerGas (optimized (optimizeGas example_policy
               (example_snapshot\<lparr>baseFee := 50\<rparr>) example_intent)))
            (optMaxFeePerGas (optimized (optimizeGas example_policy
               (example_snapshot\<lparr>baseFee := 60\<rparr>) example_intent)))
   \<and> optMaxFeePerGas (optimized (optimizeGas example_policy
               (example_snapshot\<lparr>baseFee := 60\<rparr>) example_intent)) = Num 75"
proof -
  have h: "(50::rat) \<le> 60" by simp
  have n: "priorityFeeRange example_snapshot \<noteq> []" by (simp add: example_snapshot_def)
  show ?thesis
    using h n max_fee_monotone [OF h, of example_policy example_snapshot example_intent]
      example_raised(2)
    by simp
qed

section \<open>An intent without a maximum fee\<close>

lemma recommend_shape:
  "recommendGasLimit t u = PrototypeMember
   \<or> (\<exists>v. recommendGasLimit t u = Limit v \<and> 21000 \<le> v)"
  by (cases t) (auto simp: recommendGasLimit_def Let_def)

lemma recommend_number:
  "t \<noteq> InheritedName \<Longrightarrow> \<exists>v. recommendGasLimit t u = Limit v \<and> 21000 \<le> v"
  by (cases t) (auto simp: recommendGasLimit_def Let_def)

lemma recommend_not_negative: "\<not> js_lt (limit_number (recommendGasLimit t u)) (Num 0)"
  using recommend_shape [of t u] by auto

lemma zero_cost: "estimateCost (Num 0) (Num u) = Num 0"
  by (simp add: estimateCost_def)

lemma cost_nonneg:
  assumes "0 \<le> v" "0 \<le> u"
  shows "\<exists>c. estimateCost (Num v) (Num u) = Num c \<and> 0 \<le> c"
proof -
  have "0 \<le> fl (v * u)" using assms by (intro fl_nonneg) simp
  then have "0 \<le> fl (fl (v * u) / 1000000000)" by (intro fl_nonneg) simp
  then show ?thesis by (simp add: estimateCost_def)
qed

lemma no_savings_from_zero:
  assumes "0 \<le> v" "0 \<le> u"
  shows "calculateSavings (Num 0) (Num v) (Num u) = (Num 0, Num 0)"
proof -
  obtain c where c: "estimateCost (Num v) (Num u) = Num c" "0 \<le> c"
    using cost_nonneg [OF assms] by blast
  have "0 \<le> fl c" using c(2) by (rule fl_nonneg)
  then have "fl (- c) \<le> 0" by (simp add: fl_minus)
  then show ?thesis
    by (simp add: calculateSavings_def Let_def zero_cost c(1) js_gt_def max_def)
qed

lemma zero_percent:
  "snd (calculateSavings (Num 0) m l) = Num 0"
  by (cases l) (simp_all add: calculateSavings_def Let_def estimateCost_def js_gt_def)

lemma savings_not_positive:
  assumes "\<not> js_lt m (Num 0)" "\<not> js_lt l (Num 0)"
  shows "\<not> js_gt (fst (calculateSavings (Num 0) m l)) (Num 0)"
proof (cases m)
  case NaN
  then show ?thesis
    by (cases l) (simp_all add: calculateSavings_def Let_def estimateCost_def js_gt_def)
next
  case (Num v)
  show ?thesis
  proof (cases l)
    case NaN
    then show ?thesis
      by (simp add: calculateSavings_def Let_def estimateCost_def js_gt_def)
  next
    case l: (Num u)
    have "0 \<le> v" "0 \<le> u" using assms Num l by simp_all
    then have "calculateSavings (Num 0) (Num v) (Num u) = (Num 0, Num 0)"
      by (rule no_savings_from_zero)
    then show ?thesis using Num l by (simp add: js_gt_def)
  qed
qed

lemma selected_member:
  assumes "js_or (js_index xs i) (js_index xs 0) = Some q"
  shows "q \<in> set xs"
  using assms by (auto simp: js_or_def js_index_def split: if_splits)

lemma settings_nonneg:
  assumes "0 \<le> b" "fees \<noteq> []" "\<forall>x\<in>set fees. 0 \<le> x"
  shows "\<exists>v. setMaxFeePerGas (calculateOptimalGasSettings cfg b fees c) = Num v \<and> 0 \<le> v"
proof -
  define pad where "pad = maxFeePadding (strategy (aggressiveness cfg) c)"
  have pad: "0 \<le> pad" unfolding pad_def by (rule padding_nonneg)
  obtain q where q: "setMaxPriorityFeePerGas (calculateOptimalGasSettings cfg b fees c) = Some q"
    using priority_fee_defined [OF assms(2)] by blast
  then have "q \<in> set (sort fees)"
    by (intro selected_member) (simp add: calculateOptimalGasSettings_def Let_def)
  then have "0 \<le> q" using assms(3) by simp
  then have "0 \<le> fl (b + q)" using assms(1) by (intro fl_nonneg) simp
  then have "0 \<le> fl (fl (b + q) * pad)" using pad by (intro fl_nonneg) simp
  then have "(0::rat) \<le> of_int \<lceil>fl (fl (b + q) * pad)\<rceil>" by simp
  then show ?thesis using settings_shape [of cfg b fees c] q by (simp add: to_number_def pad_def)
qed

lemma settings_not_negative:
  assumes "0 \<le> b" "\<forall>x\<in>set fees. 0 \<le> x"
  shows "\<not> js_lt (setMaxFeePerGas (calculateOptimalGasSettings cfg b fees c)) (Num 0)"
proof (cases "fees = []")
  case True
  then show ?thesis
    by (simp add: calculateOptimalGasSettings_def Let_def js_index_def js_or_def js_truthy_def
        to_number_def)
next
  case False
  then obtain v where "setMaxFeePerGas (calculateOptimalGasSettings cfg b fees c) = Num v" "0 \<le> v"
    using settings_nonneg [OF assms(1) _ assms(2)] by blast
  then show ?thesis by simp
qed

text \<open>
  C10 as it is stated fails on a snapshot whose priority fee range is empty: no priority
  fee is selected, the optimized maximum fee and cost are \<open>NaN\<close>, and so are the savings
  and the net savings, which the statement puts at 0.
\<close>

theorem absent_max_fee_counterexample:
  "maxFeePerGas (example_intent\<lparr>maxFeePerGas := None\<rparr>) = None
   \<and> savingsInMatic (savings (optimizeGas example_policy
        (example_snapshot\<lparr>priorityFeeRange := []\<rparr>) (example_intent\<lparr>maxFeePerGas := None\<rparr>)))
      = NaN
   \<and> netSavings (optimizeGas example_policy
        (example_snapshot\<lparr>priorityFeeRange := []\<rparr>) (example_intent\<lparr>maxFeePerGas := None\<rparr>))
      = NaN"
  by (simp add: optimizeGas_def Let_def calculateOptimalGasSettings_def example_policy_def
      example_snapshot_def example_intent_def calculateSavings_def estimateCost_def js_or_def
      js_index_def js_truthy_def to_number_def js_gt_def recommendGasLimit_def fl_eval)

text \<open>
  C10, amended. For every snapshot and every intent without \<open>maxFeePerGas\<close>,
  \<open>optimizeGas\<close> takes the original maximum fee as 0: the original cost is 0, the savings
  percentage is 0, and the verdict is not to optimize under every policy with a positive
  minimum savings percentage. The service fee is 0 whenever the base fee and the priority
  fees of the snapshot are non-negative. The savings and the net savings are 0 when
  moreover the priority fee range is non-empty and the type of the intent names no
  property that the recommendation table inherits.
\<close>

theorem absent_max_fee:
  assumes "maxFeePerGas tx = None"
  shows "origMaxFeePerGas (original (optimizeGas cfg g tx)) = 0
    \<and> origEstimatedCostInMatic (original (optimizeGas cfg g tx)) = Num 0
    \<and> savingsPercent (savings (optimizeGas cfg g tx)) = Num 0
    \<and> (0 < minSavingsPercent cfg \<longrightarrow> \<not> shouldOptimizeVerdict (optimizeGas cfg g tx))
    \<and> (0 \<le> baseFee g \<and> (\<forall>x\<in>set (priorityFeeRange g). 0 \<le> x)
        \<longrightarrow> feeInMatic (fee (optimizeGas cfg g tx)) = Num 0)
    \<and> (0 \<le> baseFee g \<and> priorityFeeRange g \<noteq> [] \<and> (\<forall>x\<in>set (priorityFeeRange g). 0 \<le> x)
          \<and> txType tx \<noteq> InheritedName
        \<longrightarrow> savingsInMatic (savings (optimizeGas cfg g tx)) = Num 0
          \<and> netSavings (optimizeGas cfg g tx) = Num 0)"
proof (intro conjI impI)
  show "origMaxFeePerGas (original (optimizeGas cfg g tx)) = 0"
    using assms by (simp add: optimizeGas_def Let_def)
  show "origEstimatedCostInMatic (original (optimizeGas cfg g tx)) = Num 0"
    using assms by (simp add: optimizeGas_def Let_def zero_cost)
  show pct: "savingsPercent (savings (optimizeGas cfg g tx)) = Num 0"
    using assms by (simp add: optimizeGas_def Let_def zero_percent)
  show "\<not> shouldOptimizeVerdict (optimizeGas cfg g tx)" if "0 < minSavingsPercent cfg"
    using assms that
    by (simp add: optimizeGas_def Let_def zero_percent shouldOptimize_def js_ge_def)
next
  assume h: "0 \<le> baseFee g \<and> (\<forall>x\<in>set (priorityFeeRange g). 0 \<le> x)"
  have "\<not> js_lt (setMaxFeePerGas (calculateOptimalGasSettings cfg (baseFee g)
      (priorityFeeRange g) (networkCongestion g))) (Num 0)"
    using h by (intro settings_not_negative) simp_all
  then have "\<not> js_gt (fst (calculateSavings (Num 0)
      (setMaxFeePerGas (calculateOptimalGasSettings cfg (baseFee g)
        (priorityFeeRange g) (networkCongestion g)))
      (limit_number (recommendGasLimit (txType tx)
        (case gasLimit tx of None \<Rightarrow> 21000 | Some l \<Rightarrow> l))))) (Num 0)"
    using recommend_not_negative by (rule savings_not_positive)
  then show "feeInMatic (fee (optimizeGas cfg g tx)) = Num 0"
    using assms by (simp add: optimizeGas_def Let_def)
next
  assume h: "0 \<le> baseFee g \<and> priorityFeeRange g \<noteq> [] \<and> (\<forall>x\<in>set (priorityFeeRange g). 0 \<le> x)
      \<and> txType tx \<noteq> InheritedName"
  obtain u where u: "recommendGasLimit (txType tx)
      (case gasLimit tx of None \<Rightarrow> 21000 | Some l \<Rightarrow> l) = Limit u" "21000 \<le> u"
    using recommend_number h by blast
  have u0: "0 \<le> u" using u(2) by simp
  obtain v where v: "setMaxFeePerGas (calculateOptimalGasSettings cfg (baseFee g)
      (priorityFeeRange g) (networkCongestion g)) = Num v" "0 \<le> v"
    using settings_nonneg h by blast
  have sv: "calculateSavings (Num 0) (Num v) (Num u) = (Num 0, Num 0)"
    using v(2) u0 by (rule no_savings_from_zero)
  show "savingsInMatic (savings (optimizeGas cfg g tx)) = Num 0"
    using assms by (simp add: optimizeGas_def Let_def v(1) u(1) sv)
  show "netSavings (optimizeGas cfg g tx) = Num 0"
    using assms by (simp add: optimizeGas_def Let_def v(1) u(1) sv js_gt_def)
qed

theorem absent_max_fee_witness:
  "maxFeePerGas (example_intent\<lparr>maxFeePerGas := None\<rparr>) = None
   \<and> 0 < minSavingsPercent example_policy
   \<and> 0 \<le> baseFee example_snapshot \<and> priorityFeeRange example_snapshot \<noteq> []
   \<and> list_all (\<lambda>x. 0 \<le> x) (priorityFeeRange example_snapshot)
   \<and> txType (example_intent\<lparr>maxFeePerGas := None\<rparr>) \<noteq> InheritedName
   \<and> savingsInMatic (savings (optimizeGas example_policy example_snapshot
         (example_intent\<lparr>maxFeePerGas := None\<rparr>))) = Num 0
   \<and> feeInMatic (fee (optimizeGas example_policy example_snapshot
         (example_intent\<lparr>maxFeePerGas := None\<rparr>))) = Num 0
   \<and> netSavings (optimizeGas example_policy example_snapshot
         (example_intent\<lparr>maxFeePerGas := None\<rparr>)) = Num 0
   \<and> \<not> shouldOptimizeVerdict (optimizeGas example_policy example_snapshot
         (example_intent\<lparr>maxFeePerGas := None\<rparr>))
   \<and> feeInMatic (fee (optimizeGas example_policy (example_snapshot\<lparr>priorityFeeRange := []\<rparr>)
         (example_intent\<lparr>maxFeePerGas := None\<rparr>))) = Num 0"
proof -
  have a: "maxFeePerGas (example_intent\<lparr>maxFeePerGas := None\<rparr>) = None" by simp
  have b: "0 < minSavingsPercent example_policy" by (simp add: example_policy_def)
  have c: "0 \<le> baseFee example_snapshot \<and> priorityFeeRange example_snapshot \<noteq> []
      \<and> (\<forall>x\<in>set (priorityFeeRange example_snapshot). 0 \<le> x)"
    by (simp add: example_snapshot_def)
  have d: "txType (example_intent\<lparr>maxFeePerGas := None\<rparr>) \<noteq> InheritedName"
    by (simp add: example_intent_def)
  have e: "0 \<le> baseFee (example_snapshot\<lparr>priorityFeeRange := []\<rparr>)
      \<and> (\<forall>x\<in>set (priorityFeeRange (example_snapshot\<lparr>priorityFeeRange := []\<rparr>)). 0 \<le> x)"
    by (simp add: example_snapshot_def)
  show ?thesis
    using a b c d absent_max_fee [OF a, of example_policy example_snapshot]
      e absent_max_fee [OF a, of example_policy "example_snapshot\<lparr>priorityFeeRange := []\<rparr>"]
    by (simp add: list_all_iff)
qed

section \<open>Retry and fallback\<close>

lemma primary_fails_iff: "primaryFails r = (\<exists>e. fetchFromPrimaryApi now r = Inl e)"
  by (cases r) (auto simp: primaryFails_def fetchFromPrimaryApi_def gas_station_fails_iff)

lemma first_of_dead:
  assumes "primary_dead up"
  shows "primaryFails (fst (nextReply (primaryReplies up)))"
    and "list_all primaryFails (snd (nextReply (primaryReplies up)))"
  using assms by (auto simp: primary_dead_def nextReply_def primaryFails_def split: list.splits)

lemma start_success:
  assumes "fetchFromPrimaryApi now (fst (nextReply (primaryReplies up))) = Inr gasData"
  shows "requests (startFetch cfg now api up) = [Primary]"
    and "retryCount (apiAfter (startFetch cfg now api up)) = retryCount api"
    and "outcome (startFetch cfg now api up) = Inr gasData"
  using assms by (simp_all add: startFetch_def Let_def)

lemma start_retry:
  assumes "primaryFails (fst (nextReply (primaryReplies up)))" "retryCount api < maxRetries cfg"
  shows "requests (startFetch cfg now api up) = [Primary, Primary]"
    and "retryCount (apiAfter (startFetch cfg now api up)) = retryCount api + 1"
    and "outcome (startFetch cfg now api up) =
           fetchFromPrimaryApi now (fst (nextReply (snd (nextReply (primaryReplies up)))))"
    and "upstreamAfter (startFetch cfg now api up) =
           up\<lparr>primaryReplies := snd (nextReply (snd (nextReply (primaryReplies up))))\<rparr>"
proof -
  obtain e where "fetchFromPrimaryApi now (fst (nextReply (primaryReplies up))) = Inl e"
    using assms(1) primary_fails_iff by blast
  then show "requests (startFetch cfg now api up) = [Primary, Primary]"
    and "retryCount (apiAfter (startFetch cfg now api up)) = retryCount api + 1"
    and "outcome (startFetch cfg now api up) =
           fetchFromPrimaryApi now (fst (nextReply (snd (nextReply (primaryReplies up)))))"
    and "upstreamAfter (startFetch cfg now api up) =
           up\<lparr>primaryReplies := snd (nextReply (snd (nextReply (primaryReplies up))))\<rparr>"
    using assms(2) by (simp_all add: startFetch_def Let_def)
qed

lemma start_fallback:
  assumes "primaryFails (fst (nextReply (primaryReplies up)))" "maxRetries cfg \<le> retryCount api"
  shows "requests (startFetch cfg now api up) = [Primary, Fallback]"
    and "retryCount (apiAfter (startFetch cfg now api up)) = 0"
    and "outcome (startFetch cfg now api up) =
           fetchFromFallbackApi now (fst (nextReply (fallbackReplies up)))"
proof -
  obtain e where "fetchFromPrimaryApi now (fst (nextReply (primaryReplies up))) = Inl e"
    using assms(1) primary_fails_iff by blast
  then show "requests (startFetch cfg now api up) = [Primary, Fallback]"
    and "retryCount (apiAfter (startFetch cfg now api up)) = 0"
    and "outcome (startFetch cfg now api up) =
           fetchFromFallbackApi now (fst (nextReply (fallbackReplies up)))"
    using assms(2) by (simp_all add: startFetch_def Let_def)
qed

lemma fetch_uncached:
  assumes "lastFetchedData api = None"
  shows "requests (fetchGasData cfg now api up) = requests (startFetch cfg now api up)"
    and "retryCount (apiAfter (fetchGasData cfg now api up)) =
           retryCount (apiAfter (startFetch cfg now api up))"
    and "outcome (fetchGasData cfg now api up) = outcome (startFetch cfg now api up)"
    and "upstreamAfter (fetchGasData cfg now api up) = upstreamAfter (startFetch cfg now api up)"
  using assms by (simp_all add: fetchGasData_def Let_def split: sum.splits)

lemma fetch_failed_keeps_cache:
  assumes "lastFetchedData api = None" "\<exists>e. outcome (startFetch cfg now api up) = Inl e"
  shows "lastFetchedData (apiAfter (fetchGasData cfg now api up)) = None"
proof -
  have "lastFetchedData (apiAfter (startFetch cfg now api up)) = None"
    using assms(1) by (simp add: startFetch_def Let_def split: sum.splits)
  then show ?thesis using assms by (auto simp: fetchGasData_def Let_def)
qed

lemma dead_call:
  assumes "lastFetchedData api = None" "primary_dead up" "retryCount api < maxRetries cfg"
  shows "requests (fetchGasData cfg now api up) = [Primary, Primary]"
    and "retryCount (apiAfter (fetchGasData cfg now api up)) = retryCount api + 1"
    and "lastFetchedData (apiAfter (fetchGasData cfg now api up)) = None"
    and "primary_dead (upstreamAfter (fetchGasData cfg now api up))"
proof -
  note f = first_of_dead [OF assms(2)]
  note r = start_retry [OF f(1) assms(3), of now]
  have rest: "list_all primaryFails (snd (nextReply (snd (nextReply (primaryReplies up)))))"
    and snd_fails: "primaryFails (fst (nextReply (snd (nextReply (primaryReplies up)))))"
    using f(2) by (auto simp: nextReply_def primaryFails_def split: list.splits)
  show "requests (fetchGasData cfg now api up) = [Primary, Primary]"
    using fetch_uncached(1) [OF assms(1)] r(1) by simp
  show "retryCount (apiAfter (fetchGasData cfg now api up)) = retryCount api + 1"
    using fetch_uncached(2) [OF assms(1)] r(2) by simp
  have "\<exists>e. outcome (startFetch cfg now api up) = Inl e"
    using r(3) snd_fails primary_fails_iff by simp
  then show "lastFetchedData (apiAfter (fetchGasData cfg now api up)) = None"
    using fetch_failed_keeps_cache [OF assms(1)] by simp
  show "primary_dead (upstreamAfter (fetchGasData cfg now api up))"
    using fetch_uncached(4) [OF assms(1)] r(4) rest by (simp add: primary_dead_def)
qed

lemma dead_polls:
  assumes "lastFetchedData api = None" "primary_dead up"
    "retryCount api + length ts \<le> maxRetries cfg"
  shows "retryCount (fst (poll cfg api up ts)) = retryCount api + length ts
    \<and> lastFetchedData (fst (poll cfg api up ts)) = None
    \<and> primary_dead (fst (snd (poll cfg api up ts)))
    \<and> snd (snd (poll cfg api up ts)) = replicate (2 * length ts) Primary"
  using assms
proof (induction ts arbitrary: api up)
  case Nil
  then show ?case by simp
next
  case (Cons t ts)
  have lt: "retryCount api < maxRetries cfg" using Cons.prems(3) by simp
  note d = dead_call [OF Cons.prems(1,2) lt, of t]
  have "retryCount (apiAfter (fetchGasData cfg t api up)) + length ts \<le> maxRetries cfg"
    using d(2) Cons.prems(3) by simp
  note ih = Cons.IH [OF d(3) d(4) this]
  show ?case using ih d(1,2) by (simp add: Let_def)
qed


lemmas fetch_eval = fetchGasData_def startFetch_def nextReply_def fetchFromPrimaryApi_def
  fetchFromFallbackApi_def default_api_config_def fresh_api_def silent_upstream_def Let_def

text \<open>
  C8 as it is stated fails. With \<open>maxRetries = 3\<close> and a primary source that never
  answers, the first fetch makes two primary requests that both fail, yet the counter
  stands at 1 afterwards and no third request follows; and over four fetches the requests
  are seven to the primary source and then one to the fallback, so after four consecutive
  primary failures the next request still goes to the primary source, where the statement
  has the fallback asked as the fifth request.
\<close>

theorem retry_counter_counterexample:
  "requests (fetchGasData default_api_config 0 fresh_api silent_upstream) = [Primary, Primary]
   \<and> retryCount (apiAfter (fetchGasData default_api_config 0 fresh_api silent_upstream)) = 1
   \<and> snd (snd (poll default_api_config fresh_api silent_upstream [0, 1, 2, 3])) =
       [Primary, Primary, Primary, Primary, Primary, Primary, Primary, Fallback]
   \<and> spec_requests (maxRetries default_api_config) (retryCount fresh_api) =
       [Primary, Primary, Primary, Primary, Fallback]"
  by (simp add: fetch_eval spec_requests_def numeral_eq_Suc)

text \<open>
  C8, amended. A fetch starts with one request to the primary source; when that succeeds
  the counter is left as it is. When it fails the counter is incremented: if it then
  exceeds \<open>maxRetries\<close>, it is reset to zero and the fallback source is asked once, the
  reset standing whether the fallback succeeds or fails; otherwise the primary source is
  asked once more, and the outcome of that retry is the outcome of the fetch, with no
  further count or retry. In particular, while the primary source keeps failing and
  starting from a counter of zero, the first \<open>maxRetries\<close> fetches make two primary
  requests each, and the next fetch makes one primary request and then the fallback
  request, leaving the counter at zero.
\<close>

theorem retry_state_machine:
  "(fetchFromPrimaryApi now (fst (nextReply (primaryReplies up))) = Inr gasData \<longrightarrow>
      requests (startFetch cfg now api up) = [Primary]
      \<and> retryCount (apiAfter (startFetch cfg now api up)) = retryCount api
      \<and> outcome (startFetch cfg now api up) = Inr gasData)
   \<and> (primaryFails (fst (nextReply (primaryReplies up))) \<and> retryCount api < maxRetries cfg \<longrightarrow>
      requests (startFetch cfg now api up) = [Primary, Primary]
      \<and> retryCount (apiAfter (startFetch cfg now api up)) = retryCount api + 1
      \<and> outcome (startFetch cfg now api up) =
          fetchFromPrimaryApi now (fst (nextReply (snd (nextReply (primaryReplies up))))))
   \<and> (primaryFails (fst (nextReply (primaryReplies up))) \<and> maxRetries cfg \<le> retryCount api \<longrightarrow>
      requests (startFetch cfg now api up) = [Primary, Fallback]
      \<and> retryCount (apiAfter (startFetch cfg now api up)) = 0
      \<and> outcome (startFetch cfg now api up) =
          fetchFromFallbackApi now (fst (nextReply (fallbackReplies up))))
   \<and> (lastFetchedData api = None \<and> retryCount api = 0 \<and> primary_dead up
        \<and> length ts = maxRetries cfg \<longrightarrow>
      snd (snd (poll cfg api up ts)) = replicate (2 * maxRetries cfg) Primary
      \<and> retryCount (fst (poll cfg api up ts)) = maxRetries cfg
      \<and> requests (fetchGasData cfg t (fst (poll cfg api up ts)) (fst (snd (poll cfg api up ts))))
          = [Primary, Fallback]
      \<and> retryCount (apiAfter
            (fetchGasData cfg t (fst (poll cfg api up ts)) (fst (snd (poll cfg api up ts))))) = 0)"
proof (intro conjI impI)
  assume "fetchFromPrimaryApi now (fst (nextReply (primaryReplies up))) = Inr gasData"
  note s = start_success [OF this, of cfg api]
  show "requests (startFetch cfg now api up) = [Primary]" by (rule s(1))
  show "retryCount (apiAfter (startFetch cfg now api up)) = retryCount api" by (rule s(2))
  show "outcome (startFetch cfg now api up) = Inr gasData" by (rule s(3))
next
  assume a: "primaryFails (fst (nextReply (primaryReplies up))) \<and> retryCount api < maxRetries cfg"
  note s = start_retry [of up api cfg now]
  show "requests (startFetch cfg now api up) = [Primary, Primary]" using a s(1) by simp
  show "retryCount (apiAfter (startFetch cfg now api up)) = retryCount api + 1"
    using a s(2) by simp
  show "outcome (startFetch cfg now api up) =
          fetchFromPrimaryApi now (fst (nextReply (snd (nextReply (primaryReplies up)))))"
    using a s(3) by simp
next
  assume a: "primaryFails (fst (nextReply (primaryReplies up))) \<and> maxRetries cfg \<le> retryCount api"
  note s = start_fallback [of up cfg api now]
  show "requests (startFetch cfg now api up) = [Primary, Fallback]" using a s(1) by simp
  show "retryCount (apiAfter (startFetch cfg now api up)) = 0" using a s(2) by simp
  show "outcome (startFetch cfg now api up) =
          fetchFromFallbackApi now (fst (nextReply (fallbackReplies up)))"
    using a s(3) by simp
next
  assume a: "lastFetchedData api = None \<and> retryCount api = 0 \<and> primary_dead up
        \<and> length ts = maxRetries cfg"
  then have d: "retryCount (fst (poll cfg api up ts)) = maxRetries cfg"
    "lastFetchedData (fst (poll cfg api up ts)) = None"
    "primary_dead (fst (snd (poll cfg api up ts)))"
    "snd (snd (poll cfg api up ts)) = replicate (2 * maxRetries cfg) Primary"
    using dead_polls [of api up ts cfg] by simp_all
  show "snd (snd (poll cfg api up ts)) = replicate (2 * maxRetries cfg) Primary" by (rule d(4))
  show "retryCount (fst (poll cfg api up ts)) = maxRetries cfg" by (rule d(1))
  have le: "maxRetries cfg \<le> retryCount (fst (poll cfg api up ts))" using d(1) by simp
  note fb = start_fallback [OF first_of_dead(1) [OF d(3)] le, of t]
  show "requests (fetchGasData cfg t (fst (poll cfg api up ts)) (fst (snd (poll cfg api up ts))))
          = [Primary, Fallback]"
    using fetch_uncached(1) [OF d(2)] fb(1) by simp
  show "retryCount (apiAfter
            (fetchGasData cfg t (fst (poll cfg api up ts)) (fst (snd (poll cfg api up ts))))) = 0"
    using fetch_uncached(2) [OF d(2)] fb(2) by simp
qed

lemma example_reply_succeeds:
  "\<exists>g. fetchFromPrimaryApi 0 (Body example_gas_station_body) = Inr g"
  by (simp add: fetchFromPrimaryApi_def example_gas_station_snapshot)

theorem retry_state_machine_witness:
  "primaryFails (fst (nextReply (primaryReplies silent_upstream)))
   \<and> retryCount fresh_api < maxRetries default_api_config
   \<and> requests (startFetch default_api_config 0 fresh_api silent_upstream) = [Primary, Primary]
   \<and> retryCount (apiAfter (startFetch default_api_config 0 fresh_api silent_upstream)) = 1
   \<and> maxRetries default_api_config \<le> retryCount (fresh_api\<lparr>retryCount := 3\<rparr>)
   \<and> requests (startFetch default_api_config 0 (fresh_api\<lparr>retryCount := 3\<rparr>) silent_upstream)
       = [Primary, Fallback]
   \<and> retryCount (apiAfter
         (startFetch default_api_config 0 (fresh_api\<lparr>retryCount := 3\<rparr>) silent_upstream)) = 0
   \<and> requests (startFetch default_api_config 0 (fresh_api\<lparr>retryCount := 3\<rparr>)
         (silent_upstream\<lparr>primaryReplies := [Body example_gas_station_body]\<rparr>)) = [Primary]
   \<and> retryCount (apiAfter (startFetch default_api_config 0 (fresh_api\<lparr>retryCount := 3\<rparr>)
         (silent_upstream\<lparr>primaryReplies := [Body example_gas_station_body]\<rparr>))) = 3
   \<and> lastFetchedData fresh_api = None \<and> retryCount fresh_api = 0 \<and> primary_dead silent_upstream
   \<and> length [0, 1, 2 :: nat] = maxRetries default_api_config
   \<and> snd (snd (poll default_api_config fresh_api silent_upstream [0, 1, 2])) =
       [Primary, Primary, Primary, Primary, Primary, Primary]
   \<and> requests (fetchGasData default_api_config 3
         (fst (poll default_api_config fresh_api silent_upstream [0, 1, 2]))
         (fst (snd (poll default_api_config fresh_api silent_upstream [0, 1, 2]))))
       = [Primary, Fallback]"
proof -
  have h1: "primaryFails (fst (nextReply (primaryReplies silent_upstream)))"
    "retryCount fresh_api < maxRetries default_api_config"
    "maxRetries default_api_config \<le> retryCount (fresh_api\<lparr>retryCount := 3\<rparr>)"
    "lastFetchedData fresh_api = None" "retryCount fresh_api = 0" "primary_dead silent_upstream"
    "length [0, 1, 2 :: nat] = maxRetries default_api_config"
    by (simp_all add: primaryFails_def primary_dead_def nextReply_def silent_upstream_def
        fresh_api_def default_api_config_def)
  obtain g where g: "fetchFromPrimaryApi 0 (fst (nextReply (primaryReplies
      (silent_upstream\<lparr>primaryReplies := [Body example_gas_station_body]\<rparr>)))) = Inr g"
    using example_reply_succeeds by (auto simp: nextReply_def)
  have rep: "replicate (2 * maxRetries default_api_config) Primary =
      [Primary, Primary, Primary, Primary, Primary, Primary]"
    by (simp add: default_api_config_def numeral_eq_Suc)
  have mr: "maxRetries default_api_config = 3" by (simp add: default_api_config_def)
  show ?thesis
    using h1 g rep
      retry_state_machine [where cfg = default_api_config and now = 0 and api = fresh_api
        and up = silent_upstream and ts = "[0, 1, 2]" and t = 3]
      retry_state_machine [where cfg = default_api_config and now = 0
        and api = "fresh_api\<lparr>retryCount := 3\<rparr>" and up = silent_upstream]
      retry_state_machine [where cfg = default_api_config and now = 0
        and api = "fresh_api\<lparr>retryCount := 3\<rparr>" and gasData = g
        and up = "silent_upstream\<lparr>primaryReplies := [Body example_gas_station_body]\<rparr>"]
    by (simp add: mr fresh_api_def)
qed

section \<open>Overlapping calls share one fetch\<close>











text \<open>
  A call that no other call overlaps, followed by the replies to its requests, leaves the
  transition system where the sequential model leaves \<open>fetchGasData\<close>: the same state,
  the same requests, the same result.
\<close>

lemma fetch_agrees:
  assumes "fetchPromise s = None"
  shows "apiState (run cfg s (Call c now # arrivals now up
             (requests (fetchGasData cfg now (apiState s) up))))
           = apiAfter (fetchGasData cfg now (apiState s) up)
    \<and> sent (run cfg s (Call c now # arrivals now up
             (requests (fetchGasData cfg now (apiState s) up))))
           = sent s @ requests (fetchGasData cfg now (apiState s) up)
    \<and> delivered (run cfg s (Call c now # arrivals now up
             (requests (fetchGasData cfg now (apiState s) up))))
           = delivered s @ [(c, outcome (fetchGasData cfg now (apiState s) up))]
    \<and> fetchPromise (run cfg s (Call c now # arrivals now up
             (requests (fetchGasData cfg now (apiState s) up)))) = None"
proof (cases "lastFetchedData (apiState s) \<noteq> None
    \<and> int now - int (lastFetchTime (apiState s)) < refreshInterval cfg")
  case True
  then show ?thesis using assms by (simp add: run_def fetchGasData_def)
next
  case False
  show ?thesis
  proof (cases "fetchFromPrimaryApi now (fst (nextReply (primaryReplies up)))")
    case (Inr g)
    then show ?thesis
      using assms False
      by (simp add: run_def fetchGasData_def startFetch_def Let_def settle_def send_def
          answered_def)
  next
    case (Inl e)
    show ?thesis
    proof (cases "maxRetries cfg < retryCount (apiState s) + 1")
      case True
      then show ?thesis
        using assms False Inl
        by (cases "fetchFromFallbackApi now (fst (nextReply (fallbackReplies up)))")
          (simp_all add: run_def fetchGasData_def startFetch_def Let_def settle_def send_def
            answered_def)
    next
      case nf: False
      then show ?thesis
        using assms False Inl
        by (cases "fetchFromPrimaryApi now (fst (nextReply (snd (nextReply (primaryReplies up)))))")
          (simp_all add: run_def fetchGasData_def startFetch_def Let_def settle_def send_def
            answered_def)
    qed
  qed
qed










end
